theory Spec2Isabelle
  imports Complex_Main "HOL-Library.Char_ord" "HOL-Library.List_Lexorder"
begin

section \<open>Data model of \<^verbatim>\<open>thetagang/portfolio_manager.py\<close>\<close>

text \<open>
  Python floats are modelled by exact rationals: every property below is about comparisons,
  floors and the order of filters, not about rounding. The one float special value the
  code tests for, not-a-number in the open interest fields, is modelled as \<open>None\<close>.
  Python's unbounded integers are \<open>int\<close>.

  The class of an \<^verbatim>\<open>ib_insync\<close> contract object (\<^verbatim>\<open>Stock\<close>, \<^verbatim>\<open>Option\<close>, a combo
  \<^verbatim>\<open>Contract\<close>) is the discriminant \<open>secType\<close>; \<^verbatim>\<open>isinstance(c, Stock)\<close> is
  \<open>secType c = STK\<close> and \<^verbatim>\<open>isinstance(c, Option)\<close> is \<open>secType c = OPT\<close>.
\<close>

type_synonym symbol = string

datatype sec_type = STK | OPT | BAG

record combo_leg =
  leg_conId :: nat
  ratio :: nat
  leg_exchange :: string
  leg_action :: string

record contract =
  secType :: sec_type
  symbol :: symbol
  lastTradeDateOrContractMonth :: string
  strike :: rat
  right :: string
  exchange :: string
  currency :: string
  tradingClass :: string
  conId :: nat
  comboLegs :: "combo_leg list"

text \<open>A portfolio item: \<^verbatim>\<open>p.contract\<close>, \<^verbatim>\<open>p.position\<close>, \<^verbatim>\<open>p.marketValue\<close>.\<close>

record position =
  contract :: contract
  position :: rat
  marketValue :: rat

record greeks =
  delta :: "rat option"

text \<open>
  A ticker: \<^verbatim>\<open>t.contract\<close> (here \<open>tcontract\<close>), \<^verbatim>\<open>t.marketPrice()\<close>,
  \<^verbatim>\<open>t.modelGreeks\<close> (\<open>None\<close> when absent), and the two open interest fields
  (\<open>None\<close> is not-a-number).
\<close>

record ticker =
  tcontract :: contract
  marketPrice :: rat
  modelGreeks :: "greeks option"
  putOpenInterest :: "rat option"
  callOpenInterest :: "rat option"

text \<open>A chain as returned by \<^verbatim>\<open>reqSecDefOptParams\<close>.\<close>

record chain =
  chain_exchange :: string
  chain_tradingClass :: string
  strikes :: "rat list"
  expirations :: "string list"

text \<open>
  The configuration dictionary, one field per key path the code reads;
  \<open>symbols\<close> keeps the insertion order of \<^verbatim>\<open>config["symbols"]\<close> with each symbol's weight.
\<close>

record config =
  roll_when_dte :: int
  roll_when_pnl :: rat
  target_dte :: int
  target_delta :: rat
  target_minimum_open_interest :: rat
  option_chains_expirations :: int
  option_chains_strikes :: int
  account_minimum_cushion :: rat
  symbols :: "(symbol \<times> rat) list"

text \<open>
  The Market Gateway (\<^verbatim>\<open>self.ib\<close>) as the answers it gives during one cycle.
  \<open>reqTicker c\<close> is the ticker \<^verbatim>\<open>reqTickers\<close> returns for contract \<open>c\<close> (one per
  requested contract, in request order); \<open>qualify c\<close> is the qualified contract, or
  \<open>None\<close> when \<^verbatim>\<open>qualifyContracts\<close> drops \<open>c\<close>; \<open>reqMktData c\<close> is the sequence of
  states the live ticker of \<open>c\<close> goes through, the first at subscription and one more
  after each \<^verbatim>\<open>waitOnUpdate\<close>; \<open>portfolio\<close> is the refreshed snapshot.
\<close>

record gateway =
  reqTicker :: "contract \<Rightarrow> ticker"
  qualify :: "contract \<Rightarrow> contract option"
  reqSecDefOptParams :: "symbol \<Rightarrow> chain list"
  reqMktData :: "contract \<Rightarrow> ticker list"
  portfolio :: "(symbol \<times> position list) list"

text \<open>
  The helpers imported from \<^verbatim>\<open>thetagang.options\<close> and \<^verbatim>\<open>thetagang.util\<close> are not
  part of this file of the repository; the functions below take them as parameters.
\<close>

record helpers =
  option_dte :: "string \<Rightarrow> int"
  position_pnl :: "position \<Rightarrow> rat"
  count_option_positions :: "symbol \<Rightarrow> (symbol \<times> position list) list \<Rightarrow> string \<Rightarrow> int"

datatype error =
  RuntimeError string
  | StopIteration
  | TypeError
  | AttributeError
  | ZeroDivisionError

text \<open>What a call does: return a value, raise, or never return.\<close>

datatype 'a outcome = Returns 'a | Raises error | Hangs

definition startswith :: "string \<Rightarrow> string \<Rightarrow> bool" where
  "startswith s p = (take (length p) s = p)"

text \<open>\<^verbatim>\<open>Stock(symbol, "SMART", currency="USD")\<close>\<close>

definition Stock :: "symbol \<Rightarrow> contract" where
  "Stock s = \<lparr>secType = STK, symbol = s, lastTradeDateOrContractMonth = [],
     strike = 0, right = [], exchange = ''SMART'', currency = ''USD'',
     tradingClass = [], conId = 0, comboLegs = []\<rparr>"

section \<open>Roll evaluator\<close>

definition put_is_itm :: "gateway \<Rightarrow> contract \<Rightarrow> bool" where
  "put_is_itm ib c =
     (let stock = Stock (symbol c); tk = reqTicker ib stock
      in strike c \<ge> marketPrice tk)"

definition put_can_be_rolled :: "config \<Rightarrow> helpers \<Rightarrow> gateway \<Rightarrow> position \<Rightarrow> bool" where
  "put_can_be_rolled cfg h ib put =
     (if put_is_itm ib (contract put) then False
      else let dte = option_dte h (lastTradeDateOrContractMonth (contract put));
               pnl = position_pnl h put
           in if dte \<le> roll_when_dte cfg then True
              else if pnl \<ge> roll_when_pnl cfg then True
              else False)"

definition call_can_be_rolled :: "config \<Rightarrow> helpers \<Rightarrow> position \<Rightarrow> bool" where
  "call_can_be_rolled cfg h call =
     (let dte = option_dte h (lastTradeDateOrContractMonth (contract call));
          pnl = position_pnl h call
      in if dte \<le> roll_when_dte cfg then True
         else if pnl \<ge> roll_when_pnl cfg then True
         else False)"

section \<open>Contract candidate selector\<close>

text \<open>Python's slices \<^verbatim>\<open>xs[:n]\<close> and \<^verbatim>\<open>xs[n:]\<close>, for any integer \<open>n\<close>.\<close>

definition slice_to :: "'a list \<Rightarrow> int \<Rightarrow> 'a list" where
  "slice_to xs n =
     (if 0 \<le> n then take (nat n) xs else take (length xs - nat (- n)) xs)"

definition slice_from :: "'a list \<Rightarrow> int \<Rightarrow> 'a list" where
  "slice_from xs n =
     (if 0 \<le> n then drop (nat n) xs else drop (length xs - nat (- n)) xs)"

text \<open>
  \<^verbatim>\<open>Option(symbol, expiration, strike, right, "SMART", tradingClass=...)\<close>
\<close>

definition Option :: "symbol \<Rightarrow> string \<Rightarrow> rat \<Rightarrow> string \<Rightarrow> string \<Rightarrow> string \<Rightarrow> contract" where
  "Option s expiration k rt exch tc =
     \<lparr>secType = OPT, symbol = s, lastTradeDateOrContractMonth = expiration,
      strike = k, right = rt, exchange = exch, currency = [],
      tradingClass = tc, conId = 0, comboLegs = []\<rparr>"

definition valid_strike :: "string \<Rightarrow> rat \<Rightarrow> rat \<Rightarrow> bool" where
  "valid_strike rt tickerValue k =
     (if startswith rt ''P'' then k \<le> tickerValue
      else if startswith rt ''C'' then k \<ge> tickerValue
      else False)"

text \<open>For a right that starts with neither letter the Python function returns \<^verbatim>\<open>None\<close>.\<close>

definition nearest_strikes :: "config \<Rightarrow> string \<Rightarrow> rat list \<Rightarrow> rat list option" where
  "nearest_strikes cfg rt ks =
     (let chain_strikes = option_chains_strikes cfg
      in if startswith rt ''P'' then Some (slice_from ks (- chain_strikes))
         else if startswith rt ''C'' then Some (slice_to ks chain_strikes)
         else None)"

text \<open>
  Lines 334 to 361: the sorted valid strikes, the nearest expirations, and one contract per
  expiration and kept strike. \<^verbatim>\<open>nearest_strikes(strikes)\<close> is evaluated once per
  expiration, so iterating over its \<^verbatim>\<open>None\<close> raises only when an expiration is kept.
\<close>

definition candidate_contracts ::
  "config \<Rightarrow> helpers \<Rightarrow> symbol \<Rightarrow> string \<Rightarrow> chain \<Rightarrow> rat \<Rightarrow> error + contract list" where
  "candidate_contracts cfg h s rt ch tickerValue =
     (let ks = sort (filter (valid_strike rt tickerValue) (strikes ch));
          exps = slice_to
                   (sort (filter (\<lambda>exp. option_dte h exp \<ge> target_dte cfg) (expirations ch)))
                   (option_chains_expirations cfg)
      in if exps = [] then Inr []
         else (case nearest_strikes cfg rt ks of
                 None \<Rightarrow> Inl TypeError
               | Some near \<Rightarrow>
                   Inr (concat (map (\<lambda>expiration.
                          map (\<lambda>k. Option s expiration k rt ''SMART'' (chain_tradingClass ch)) near)
                        exps))))"

text \<open>\<^verbatim>\<open>qualifyContracts\<close> returns the contracts it could qualify, in order.\<close>

definition qualifyContracts :: "gateway \<Rightarrow> contract list \<Rightarrow> contract list" where
  "qualifyContracts ib cs = List.map_filter (qualify ib) cs"

text \<open>
  The polling loop of \<^verbatim>\<open>open_interest_is_valid\<close> over the states of the live ticker:
  it leaves the loop at the first state with both fields populated, and never returns when
  no such state comes.
\<close>

fun wait_for_open_interest :: "ticker list \<Rightarrow> (rat \<times> rat) option" where
  "wait_for_open_interest [] = None"
| "wait_for_open_interest (t # ts) =
     (case (putOpenInterest t, callOpenInterest t) of
        (Some p, Some c) \<Rightarrow> Some (p, c)
      | _ \<Rightarrow> wait_for_open_interest ts)"

text \<open>\<open>None\<close>: the wait never ends. The fall-through \<^verbatim>\<open>None\<close> of the Python is falsy.\<close>

definition open_interest_is_valid :: "config \<Rightarrow> gateway \<Rightarrow> string \<Rightarrow> ticker \<Rightarrow> bool option" where
  "open_interest_is_valid cfg ib rt tk =
     (case wait_for_open_interest (reqMktData ib (tcontract tk)) of
        None \<Rightarrow> None
      | Some (putOI, callOI) \<Rightarrow>
          Some (if startswith rt ''P'' then putOI \<ge> target_minimum_open_interest cfg
                else if startswith rt ''C'' then callOI \<ge> target_minimum_open_interest cfg
                else False))"

text \<open>
  \<^verbatim>\<open>ticker.modelGreeks and ticker.modelGreeks.delta and abs(...) <= target\<close>: the value
  is used as a condition, so a missing \<^verbatim>\<open>modelGreeks\<close>, a missing delta and the float
  \<^verbatim>\<open>0.0\<close> are all falsy.
\<close>

definition delta_is_valid :: "config \<Rightarrow> ticker \<Rightarrow> bool" where
  "delta_is_valid cfg tk =
     (case modelGreeks tk of
        None \<Rightarrow> False
      | Some g \<Rightarrow>
          (case delta g of
             None \<Rightarrow> False
           | Some d \<Rightarrow> d \<noteq> 0 \<and> \<bar>d\<bar> \<le> target_delta cfg))"

text \<open>The second list comprehension of line 399, one wait per ticker, in order.\<close>

fun filter_open_interest :: "config \<Rightarrow> gateway \<Rightarrow> string \<Rightarrow> ticker list \<Rightarrow> ticker list option" where
  "filter_open_interest cfg ib rt [] = Some []"
| "filter_open_interest cfg ib rt (t # ts) =
     (case open_interest_is_valid cfg ib rt t of
        None \<Rightarrow> None
      | Some keep \<Rightarrow>
          (case filter_open_interest cfg ib rt ts of
             None \<Rightarrow> None
           | Some r \<Rightarrow> Some (if keep then t # r else r)))"

text \<open>\<^verbatim>\<open>abs(t.modelGreeks.delta)\<close>, which raises when either is missing.\<close>

definition abs_delta :: "ticker \<Rightarrow> error + rat" where
  "abs_delta t =
     (case modelGreeks t of
        None \<Rightarrow> Inl AttributeError
      | Some g \<Rightarrow> (case delta g of None \<Rightarrow> Inl TypeError | Some d \<Rightarrow> Inr \<bar>d\<bar>))"

definition delta_key :: "ticker \<Rightarrow> rat" where
  "delta_key t = (case abs_delta t of Inr d \<Rightarrow> d | Inl _ \<Rightarrow> 0)"

definition dte_key :: "helpers \<Rightarrow> ticker \<Rightarrow> int" where
  "dte_key h t = option_dte h (lastTradeDateOrContractMonth (tcontract t))"

text \<open>
  Lines 400 to 403: \<^verbatim>\<open>sorted\<close> is stable, as \<open>sort_key\<close> is. The inner sort raises at
  the first ticker whose key raises.
\<close>

definition rank_tickers :: "helpers \<Rightarrow> ticker list \<Rightarrow> error + ticker list" where
  "rank_tickers h ts =
     (case List.find (\<lambda>t. isl (abs_delta t)) ts of
        Some bad \<Rightarrow> Inl (projl (abs_delta bad))
      | None \<Rightarrow> Inr (sort_key (dte_key h) (rev (sort_key delta_key ts))))"

text \<open>Lines 314 to 365: the tickers of all candidate contracts.\<close>

definition candidate_tickers ::
  "config \<Rightarrow> helpers \<Rightarrow> gateway \<Rightarrow> symbol \<Rightarrow> string \<Rightarrow> error + ticker list" where
  "candidate_tickers cfg h ib s rt =
     (let stock = (case qualify ib (Stock s) of Some q \<Rightarrow> q | None \<Rightarrow> Stock s);
          tickerValue = marketPrice (reqTicker ib stock)
      in case List.find (\<lambda>c. chain_exchange c = ''SMART'') (reqSecDefOptParams ib (symbol stock)) of
           None \<Rightarrow> Inl StopIteration
         | Some ch \<Rightarrow>
             (case candidate_contracts cfg h s rt ch tickerValue of
                Inl e \<Rightarrow> Inl e
              | Inr contracts \<Rightarrow> Inr (map (reqTicker ib) (qualifyContracts ib contracts))))"

text \<open>Lines 398 and 399: the survivors of the delta filter and then the open interest filter.\<close>

definition surviving_tickers ::
  "config \<Rightarrow> helpers \<Rightarrow> gateway \<Rightarrow> symbol \<Rightarrow> string \<Rightarrow> ticker list outcome" where
  "surviving_tickers cfg h ib s rt =
     (case candidate_tickers cfg h ib s rt of
        Inl e \<Rightarrow> Raises e
      | Inr tickers \<Rightarrow>
          (case filter_open_interest cfg ib rt (filter (delta_is_valid cfg) tickers) of
             None \<Rightarrow> Hangs
           | Some survivors \<Rightarrow> Returns survivors))"

definition no_valid_contracts :: "symbol \<Rightarrow> error" where
  "no_valid_contracts s = RuntimeError (''No valid contracts found for '' @ s @ ''. Aborting.'')"

definition find_eligible_contracts ::
  "config \<Rightarrow> helpers \<Rightarrow> gateway \<Rightarrow> symbol \<Rightarrow> string \<Rightarrow> ticker outcome" where
  "find_eligible_contracts cfg h ib s rt =
     (case surviving_tickers cfg h ib s rt of
        Raises e \<Rightarrow> Raises e
      | Hangs \<Rightarrow> Hangs
      | Returns survivors \<Rightarrow>
          (case rank_tickers h survivors of
             Inl e \<Rightarrow> Raises e
           | Inr tickers \<Rightarrow>
               (case tickers of
                  [] \<Rightarrow> Raises (no_valid_contracts s)
                | t # _ \<Rightarrow> Returns t)))"

section \<open>Allocation calculator\<close>

text \<open>
  The account summary after \<^verbatim>\<open>float(account_summary[...].value)\<close>; a snapshot maps
  each symbol to its positions, in the dictionary's order.
\<close>

record account_summary =
  BuyingPower :: rat
  ExcessLiquidity :: rat
  NetLiquidation :: rat

type_synonym snapshot = "(symbol \<times> position list) list"

definition stock_positions :: "snapshot \<Rightarrow> position list" where
  "stock_positions pp = filter (\<lambda>p. secType (contract p) = STK) (concat (map snd pp))"

definition remaining_buying_power :: "config \<Rightarrow> account_summary \<Rightarrow> int" where
  "remaining_buying_power cfg a =
     \<lfloor>min (BuyingPower a) (ExcessLiquidity a - NetLiquidation a * account_minimum_cushion cfg)\<rfloor>"

definition total_value :: "config \<Rightarrow> account_summary \<Rightarrow> snapshot \<Rightarrow> rat" where
  "total_value cfg a pp =
     sum_list (map (\<lambda>stock. marketValue stock * position stock) (stock_positions pp))
       + of_int (remaining_buying_power cfg a)"

text \<open>\<^verbatim>\<open>stock_symbols[symbol] = stock\<close> for every stock in order: the last one stays.\<close>

definition stock_symbols :: "snapshot \<Rightarrow> symbol \<rightharpoonup> position" where
  "stock_symbols pp =
     fold (\<lambda>stock m. m(symbol (contract stock) \<mapsto> stock)) (stock_positions pp) Map.empty"

text \<open>
  \<^verbatim>\<open>math.floor(targets[symbol] / ticker.marketPrice())\<close>; dividing by a zero price
  raises.
\<close>

definition target_share_count :: "rat \<Rightarrow> rat \<Rightarrow> error + int" where
  "target_share_count target price =
     (if price = 0 then Inl ZeroDivisionError else Inr \<lfloor>target / price\<rfloor>)"

text \<open>One round of the loop of lines 233 to 245, for a symbol and its weight.\<close>

definition target_additional_quantity ::
  "gateway \<Rightarrow> rat \<Rightarrow> (symbol \<rightharpoonup> position) \<Rightarrow> symbol \<Rightarrow> rat \<Rightarrow> error + rat" where
  "target_additional_quantity ib tv held s weight =
     (let tk = reqTicker ib (Stock s);
          target = weight * tv
      in case target_share_count target (marketPrice tk) of
           Inl e \<Rightarrow> Inl e
         | Inr n \<Rightarrow>
             Inr (case held s of
                    Some stock \<Rightarrow> of_int n - position stock
                  | None \<Rightarrow> of_int n))"

fun target_additional_quantities ::
  "gateway \<Rightarrow> rat \<Rightarrow> (symbol \<rightharpoonup> position) \<Rightarrow> (symbol \<times> rat) list \<Rightarrow> error + (symbol \<times> rat) list" where
  "target_additional_quantities ib tv held [] = Inr []"
| "target_additional_quantities ib tv held ((s, weight) # rest) =
     (case target_additional_quantity ib tv held s weight of
        Inl e \<Rightarrow> Inl e
      | Inr q \<Rightarrow>
          (case target_additional_quantities ib tv held rest of
             Inl e \<Rightarrow> Inl e
           | Inr qs \<Rightarrow> Inr ((s, q) # qs)))"

text \<open>\<^verbatim>\<open>target_additional_quantity[symbol] // 100\<close>\<close>

definition target_put_count :: "rat \<Rightarrow> int" where
  "target_put_count q = \<lfloor>q / 100\<rfloor>"

text \<open>
  Rounding toward zero, as the specification words it; the code does not use it.
\<close>

definition floor_toward_zero :: "rat \<Rightarrow> int" where
  "floor_toward_zero x = (if 0 \<le> x then \<lfloor>x\<rfloor> else \<lceil>x\<rceil>)"

section \<open>Orders and the state of a cycle\<close>

record order =
  action :: string
  totalQuantity :: rat
  lmtPrice :: rat
  algoStrategy :: string
  algoParams :: "(string \<times> string) list"
  tif :: string

text \<open>\<^verbatim>\<open>round(x, 2)\<close>: the nearest hundredth, a tie going to the even one.\<close>

definition round2 :: "rat \<Rightarrow> rat" where
  "round2 x =
     (let y = x * 100; f = \<lfloor>y\<rfloor>; r = y - of_int f
      in of_int (if r < 1 / 2 then f else if 1 / 2 < r then f + 1
                 else if even f then f else f + 1) / 100)"

definition LimitOrder :: "string \<Rightarrow> rat \<Rightarrow> rat \<Rightarrow> order" where
  "LimitOrder act quantity price =
     \<lparr>action = act, totalQuantity = quantity, lmtPrice = price,
      algoStrategy = ''Adaptive'', algoParams = [(''adaptivePriority'', ''Patient'')],
      tif = ''DAY''\<rparr>"

text \<open>
  The objects a cycle can change. \<open>dict_at r\<close> is the dictionary object at reference
  \<open>r\<close>: its keys in order, each with the references of its position objects.
  \<open>position_at r\<close> is the position object at \<open>r\<close> together with its contract object.
  \<open>orders\<close> are the orders placed so far, \<open>completed\<close> is the completion future.
\<close>

record world =
  dict_at :: "nat \<Rightarrow> (symbol \<times> nat list) list"
  position_at :: "nat \<Rightarrow> position"
  orders :: "(contract \<times> order) list"
  completed :: bool

definition placeOrder :: "contract \<Rightarrow> order \<Rightarrow> world \<Rightarrow> world" where
  "placeOrder c ord w = w\<lparr>orders := orders w @ [(c, ord)]\<rparr>"

text \<open>The snapshot a dictionary reference stands for in a given state.\<close>

definition snapshot_of :: "world \<Rightarrow> nat \<Rightarrow> snapshot" where
  "snapshot_of w d = map (\<lambda>(s, refs). (s, map (position_at w) refs)) (dict_at w d)"

text \<open>Sequencing: a raise or a hang ends the rest, and the state reached so far stays.\<close>

definition and_then ::
  "unit outcome \<times> world \<Rightarrow> (world \<Rightarrow> unit outcome \<times> world) \<Rightarrow> unit outcome \<times> world" where
  "and_then r f =
     (case r of
        (Returns _, w) \<Rightarrow> f w
      | (Raises e, w) \<Rightarrow> (Raises e, w)
      | (Hangs, w) \<Rightarrow> (Hangs, w))"

section \<open>Position classifier\<close>

text \<open>The references of the option positions whose right starts with \<open>rt\<close>.\<close>

definition get_options :: "world \<Rightarrow> nat \<Rightarrow> string \<Rightarrow> nat list" where
  "get_options w d rt =
     concat (map (\<lambda>(s, refs).
               filter (\<lambda>r. secType (contract (position_at w r)) = OPT
                          \<and> startswith (right (contract (position_at w r))) rt) refs)
             (dict_at w d))"

definition get_calls :: "world \<Rightarrow> nat \<Rightarrow> nat list" where
  "get_calls w d = get_options w d ''C''"

definition get_puts :: "world \<Rightarrow> nat \<Rightarrow> nat list" where
  "get_puts w d = get_options w d ''P''"

text \<open>
  \<^verbatim>\<open>filter_positions\<close> iterates over the key view of the dictionary and deletes from
  the same dictionary. \<open>used\<close> is the size the iterator saw when it was created and
  \<open>ks\<close> are the keys it has not handed out yet; each step of a Python dictionary
  iterator first compares the size and raises when it has changed.
\<close>

definition changed_size :: error where
  "changed_size = RuntimeError ''dictionary changed size during iteration''"

definition del_key :: "symbol \<Rightarrow> nat \<Rightarrow> world \<Rightarrow> world" where
  "del_key k d w =
     w\<lparr>dict_at := (dict_at w)(d := filter (\<lambda>(k', _). k' \<noteq> k) (dict_at w d))\<rparr>"

fun filter_positions_loop ::
  "config \<Rightarrow> nat \<Rightarrow> nat \<Rightarrow> symbol list \<Rightarrow> world \<Rightarrow> unit outcome \<times> world" where
  "filter_positions_loop cfg d used [] w =
     (if length (dict_at w d) \<noteq> used then (Raises changed_size, w) else (Returns (), w))"
| "filter_positions_loop cfg d used (k # ks) w =
     (if length (dict_at w d) \<noteq> used then (Raises changed_size, w)
      else if k \<notin> set (map fst (symbols cfg))
           then filter_positions_loop cfg d used ks (del_key k d w)
           else filter_positions_loop cfg d used ks w)"

text \<open>The reference it returns is the one it was given.\<close>

definition filter_positions :: "config \<Rightarrow> nat \<Rightarrow> world \<Rightarrow> nat outcome \<times> world" where
  "filter_positions cfg d w =
     (case filter_positions_loop cfg d (length (dict_at w d)) (map fst (dict_at w d)) w of
        (Returns _, w') \<Rightarrow> (Returns d, w')
      | (Raises e, w') \<Rightarrow> (Raises e, w')
      | (Hangs, w') \<Rightarrow> (Hangs, w'))"

section \<open>Order builder\<close>

definition write_calls ::
  "config \<Rightarrow> helpers \<Rightarrow> gateway \<Rightarrow> symbol \<Rightarrow> int \<Rightarrow> world \<Rightarrow> unit outcome \<times> world" where
  "write_calls cfg h ib s quantity w =
     (case find_eligible_contracts cfg h ib s ''C'' of
        Raises e \<Rightarrow> (Raises e, w)
      | Hangs \<Rightarrow> (Hangs, w)
      | Returns sell_ticker \<Rightarrow>
          (let ord = LimitOrder ''SELL'' (of_int quantity) (round2 (marketPrice sell_ticker))
           in (Returns (), placeOrder (tcontract sell_ticker) ord w)))"

definition write_puts ::
  "config \<Rightarrow> helpers \<Rightarrow> gateway \<Rightarrow> symbol \<Rightarrow> int \<Rightarrow> world \<Rightarrow> unit outcome \<times> world" where
  "write_puts cfg h ib s quantity w =
     (case find_eligible_contracts cfg h ib s ''P'' of
        Raises e \<Rightarrow> (Raises e, w)
      | Hangs \<Rightarrow> (Hangs, w)
      | Returns sell_ticker \<Rightarrow>
          (let ord = LimitOrder ''SELL'' (of_int quantity) (round2 (marketPrice sell_ticker))
           in (Returns (), placeOrder (tcontract sell_ticker) ord w)))"

text \<open>\<^verbatim>\<open>position.contract.exchange = "SMART"\<close> on the position object at \<open>r\<close>.\<close>

definition routed_SMART :: "position \<Rightarrow> position" where
  "routed_SMART p = p\<lparr>contract := (contract p)\<lparr>exchange := ''SMART''\<rparr>\<rparr>"

definition set_exchange_SMART :: "nat \<Rightarrow> world \<Rightarrow> world" where
  "set_exchange_SMART r w =
     w\<lparr>position_at := (position_at w)(r := routed_SMART (position_at w r))\<rparr>"

definition ComboLeg :: "nat \<Rightarrow> string \<Rightarrow> combo_leg" where
  "ComboLeg cid act = \<lparr>leg_conId = cid, ratio = 1, leg_exchange = ''SMART'', leg_action = act\<rparr>"

text \<open>\<^verbatim>\<open>Contract(secType="BAG", symbol=..., currency="USD", exchange="SMART", comboLegs=...)\<close>\<close>

definition combo_contract :: "symbol \<Rightarrow> combo_leg list \<Rightarrow> contract" where
  "combo_contract s legs =
     \<lparr>secType = BAG, symbol = s, lastTradeDateOrContractMonth = [],
      strike = 0, right = [], exchange = ''SMART'', currency = ''USD'',
      tradingClass = [], conId = 0, comboLegs = legs\<rparr>"

text \<open>The body of the loop of \<^verbatim>\<open>roll_positions\<close> after the selector has returned.\<close>

definition roll_one :: "gateway \<Rightarrow> nat \<Rightarrow> ticker \<Rightarrow> world \<Rightarrow> world" where
  "roll_one ib r sell_ticker w =
     (let s = symbol (contract (position_at w r));
          quantity = \<bar>position (position_at w r)\<bar>;
          w1 = set_exchange_SMART r w;
          buy_ticker = reqTicker ib (contract (position_at w1 r));
          price = marketPrice buy_ticker - marketPrice sell_ticker;
          legs = [ComboLeg (conId (contract (position_at w1 r))) ''BUY'',
                  ComboLeg (conId (tcontract sell_ticker)) ''SELL''];
          combo = combo_contract s legs;
          ord = LimitOrder ''BUY'' quantity (round2 price)
      in placeOrder combo ord w1)"

fun roll_positions ::
  "config \<Rightarrow> helpers \<Rightarrow> gateway \<Rightarrow> string \<Rightarrow> nat list \<Rightarrow> world \<Rightarrow> unit outcome \<times> world" where
  "roll_positions cfg h ib rt [] w = (Returns (), w)"
| "roll_positions cfg h ib rt (r # rs) w =
     (case find_eligible_contracts cfg h ib (symbol (contract (position_at w r))) rt of
        Raises e \<Rightarrow> (Raises e, w)
      | Hangs \<Rightarrow> (Hangs, w)
      | Returns sell_ticker \<Rightarrow> roll_positions cfg h ib rt rs (roll_one ib r sell_ticker w))"

definition roll_puts ::
  "config \<Rightarrow> helpers \<Rightarrow> gateway \<Rightarrow> nat list \<Rightarrow> world \<Rightarrow> unit outcome \<times> world" where
  "roll_puts cfg h ib puts w = roll_positions cfg h ib ''P'' puts w"

definition roll_calls ::
  "config \<Rightarrow> helpers \<Rightarrow> gateway \<Rightarrow> nat list \<Rightarrow> world \<Rightarrow> unit outcome \<times> world" where
  "roll_calls cfg h ib calls w = roll_positions cfg h ib ''C'' calls w"

section \<open>The management cycle\<close>

definition check_puts ::
  "config \<Rightarrow> helpers \<Rightarrow> gateway \<Rightarrow> nat \<Rightarrow> world \<Rightarrow> unit outcome \<times> world" where
  "check_puts cfg h ib d w =
     (let puts = get_puts w d;
          rollable_puts = filter (\<lambda>r. put_can_be_rolled cfg h ib (position_at w r)) puts
      in roll_puts cfg h ib rollable_puts w)"

definition check_calls ::
  "config \<Rightarrow> helpers \<Rightarrow> gateway \<Rightarrow> nat \<Rightarrow> world \<Rightarrow> unit outcome \<times> world" where
  "check_calls cfg h ib d w =
     (let calls = get_calls w d;
          rollable_calls = filter (\<lambda>r. call_can_be_rolled cfg h (position_at w r)) calls
      in roll_calls cfg h ib rollable_calls w)"

text \<open>
  The loop of \<^verbatim>\<open>check_for_uncovered_positions\<close> over the entries still to visit;
  \<open>pp\<close> is the whole snapshot, which the loop does not change.
\<close>

fun uncovered_loop ::
  "config \<Rightarrow> helpers \<Rightarrow> gateway \<Rightarrow> snapshot \<Rightarrow> snapshot \<Rightarrow> world \<Rightarrow> unit outcome \<times> world" where
  "uncovered_loop cfg h ib pp [] w = (Returns (), w)"
| "uncovered_loop cfg h ib pp ((s, ps) # rest) w =
     (let call_count = count_option_positions h s pp ''C'';
          stock_count = \<lfloor>sum_list (map position (filter (\<lambda>p. secType (contract p) = STK) ps))\<rfloor>;
          target_calls = stock_count div 100;
          calls_to_write = target_calls - call_count
      in if calls_to_write > 0
         then and_then (write_calls cfg h ib s calls_to_write w) (uncovered_loop cfg h ib pp rest)
         else uncovered_loop cfg h ib pp rest w)"

definition check_for_uncovered_positions ::
  "config \<Rightarrow> helpers \<Rightarrow> gateway \<Rightarrow> nat \<Rightarrow> world \<Rightarrow> unit outcome \<times> world" where
  "check_for_uncovered_positions cfg h ib d w =
     uncovered_loop cfg h ib (snapshot_of w d) (snapshot_of w d) w"

text \<open>The loop of lines 248 to 252 over the entries of \<^verbatim>\<open>target_additional_quantity\<close>.\<close>

fun write_puts_loop ::
  "config \<Rightarrow> helpers \<Rightarrow> gateway \<Rightarrow> snapshot \<Rightarrow> (symbol \<times> rat) list \<Rightarrow> world \<Rightarrow> unit outcome \<times> world" where
  "write_puts_loop cfg h ib pp [] w = (Returns (), w)"
| "write_puts_loop cfg h ib pp ((s, q) # rest) w =
     (let put_count = count_option_positions h s pp ''P'';
          target = target_put_count q
      in if put_count < target
         then and_then (write_puts cfg h ib s (target - put_count) w)
                (write_puts_loop cfg h ib pp rest)
         else write_puts_loop cfg h ib pp rest w)"

definition check_if_can_write_puts ::
  "config \<Rightarrow> helpers \<Rightarrow> gateway \<Rightarrow> account_summary \<Rightarrow> snapshot \<Rightarrow> world \<Rightarrow> unit outcome \<times> world" where
  "check_if_can_write_puts cfg h ib a pp w =
     (case target_additional_quantities ib (total_value cfg a pp) (stock_symbols pp) (symbols cfg) of
        Inl e \<Rightarrow> (Raises e, w)
      | Inr qs \<Rightarrow> write_puts_loop cfg h ib pp qs w)"

definition manage ::
  "config \<Rightarrow> helpers \<Rightarrow> gateway \<Rightarrow> account_summary \<Rightarrow> nat \<Rightarrow> world \<Rightarrow> unit outcome \<times> world" where
  "manage cfg h ib a d w =
     (case filter_positions cfg d w of
        (Raises e, w1) \<Rightarrow> (Raises e, w1)
      | (Hangs, w1) \<Rightarrow> (Hangs, w1)
      | (Returns d1, w1) \<Rightarrow>
          and_then (check_puts cfg h ib d1 w1) (\<lambda>w2.
          and_then (check_calls cfg h ib d1 w2) (\<lambda>w3.
          and_then (check_for_uncovered_positions cfg h ib d1 w3) (\<lambda>w4.
          and_then (check_if_can_write_puts cfg h ib a (portfolio ib) w4) (\<lambda>w5.
          (Returns (), w5\<lparr>completed := True\<rparr>))))))"

section \<open>Example inputs\<close>

text \<open>
  A configuration with two symbols, a gateway that quotes every stock at 90 and offers
  strikes 85 and 95, and helpers that read the days to expiration off a two-digit date.
  For \<open>AAA\<close> the chain has expirations 30, 20 and 5 days away; the quote of the 30-day
  contracts has delta \<open>-1/4\<close>, that of the others \<open>-1/10\<close>. For every other symbol
  the only expiration is 5 days away, below \<open>target_dte\<close>.
\<close>

definition ex_cfg :: config where
  "ex_cfg = \<lparr>roll_when_dte = 7, roll_when_pnl = 9 / 10, target_dte = 10, target_delta = 3 / 10,
     target_minimum_open_interest = 10, option_chains_expirations = 2,
     option_chains_strikes = 2, account_minimum_cushion = 1 / 10,
     symbols = [(''BBB'', 1 / 10), (''AAA'', 1 / 10)]\<rparr>"

definition ex_dte :: "string \<Rightarrow> int" where
  "ex_dte d =
     (if d = ''20'' then 20 else if d = ''30'' then 30 else if d = ''07'' then 7 else 0)"

definition ex_h :: helpers where
  "ex_h = \<lparr>option_dte = ex_dte,
     position_pnl = (\<lambda>p. if position p = - 2 then 9 / 10 else 0),
     count_option_positions = (\<lambda>s pp rt. 0)\<rparr>"

definition ex_quote :: "contract \<Rightarrow> ticker" where
  "ex_quote c =
     \<lparr>tcontract = c,
      marketPrice = (if secType c = STK then 90 else 1),
      modelGreeks =
        (if secType c = STK then None
         else Some \<lparr>delta = Some (if lastTradeDateOrContractMonth c = ''30''
                                  then - (1 / 4) else - (1 / 10))\<rparr>),
      putOpenInterest = None, callOpenInterest = None\<rparr>"

definition ex_live :: "contract \<Rightarrow> ticker list" where
  "ex_live c =
     [ex_quote c,
      (ex_quote c)\<lparr>putOpenInterest := Some 100\<rparr>,
      (ex_quote c)\<lparr>putOpenInterest := Some 100, callOpenInterest := Some 50\<rparr>]"

definition ex_chains :: "symbol \<Rightarrow> chain list" where
  "ex_chains s =
     [\<lparr>chain_exchange = ''CBOE'', chain_tradingClass = s, strikes = [], expirations = []\<rparr>,
      \<lparr>chain_exchange = ''SMART'', chain_tradingClass = s, strikes = [95, 85],
       expirations = (if s = ''AAA'' then [''30'', ''20'', ''05''] else [''05''])\<rparr>]"

definition ex_ib :: gateway where
  "ex_ib = \<lparr>reqTicker = ex_quote, qualify = Some, reqSecDefOptParams = ex_chains,
     reqMktData = ex_live, portfolio = []\<rparr>"

text \<open>A put struck at 95 that expires today, a put struck at 85 with 7 days left, and a
  call with 30 days left whose profit is exactly the threshold.\<close>

definition ex_put_itm :: position where
  "ex_put_itm = \<lparr>contract = Option ''AAA'' ''05'' 95 ''P'' ''CBOE'' ''AAA'',
     position = - 1, marketValue = - 100\<rparr>"

definition ex_put_otm :: position where
  "ex_put_otm = \<lparr>contract = Option ''AAA'' ''07'' 85 ''P'' ''CBOE'' ''AAA'',
     position = - 1, marketValue = - 100\<rparr>"

definition ex_call :: position where
  "ex_call = \<lparr>contract = Option ''AAA'' ''30'' 95 ''C'' ''CBOE'' ''AAA'',
     position = - 2, marketValue = - 100\<rparr>"

text \<open>
  The two quotes the selector ranks for puts on \<open>AAA\<close>: \<open>ex_A\<close> 30 days out with
  \<open>|delta| = 1/4\<close> and \<open>ex_B\<close> 20 days out with \<open>|delta| = 1/10\<close>; and a quote
  whose model delta is present and exactly zero.
\<close>

definition ex_B :: ticker where
  "ex_B = ex_quote (Option ''AAA'' ''20'' 85 ''P'' ''SMART'' ''AAA'')"

definition ex_A :: ticker where
  "ex_A = ex_quote (Option ''AAA'' ''30'' 85 ''P'' ''SMART'' ''AAA'')"

definition ex_zero_delta :: ticker where
  "ex_zero_delta = ex_B\<lparr>modelGreeks := Some \<lparr>delta = Some 0\<rparr>\<rparr>"

text \<open>
  An account with buying power 100000, excess liquidity 200000 and net liquidation 150000;
  an account whose excess liquidity is below the cushion; and a snapshot holding 250
  shares of \<open>AAA\<close>.
\<close>

definition ex_account :: account_summary where
  "ex_account = \<lparr>BuyingPower = 100000, ExcessLiquidity = 200000, NetLiquidation = 150000\<rparr>"

definition ex_account_low :: account_summary where
  "ex_account_low = \<lparr>BuyingPower = 1000, ExcessLiquidity = 0, NetLiquidation = 1000\<rparr>"

definition ex_held :: snapshot where
  "ex_held = [(''AAA'', [\<lparr>contract = Stock ''AAA'', position = 250, marketValue = 22500\<rparr>])]"

text \<open>
  A state with two dictionaries: the one at reference 0 holds \<open>AAA\<close>, with the put
  \<open>ex_put_otm\<close> at position reference 0, and \<open>ZZZ\<close>, which the configuration does
  not list; the one at reference 2 holds \<open>AAA\<close> alone. \<open>ex_world_rolled\<close> is the state
  after that put has been rolled, \<open>ex_world_written\<close> the state after one put on
  \<open>AAA\<close> has been written.
\<close>

definition ex_stock :: position where
  "ex_stock = \<lparr>contract = Stock ''ZZZ'', position = 10, marketValue = 900\<rparr>"

definition ex_world :: world where
  "ex_world = \<lparr>dict_at = (\<lambda>d. if d = 0 then [(''AAA'', [0]), (''ZZZ'', [5])]
                               else if d = 2 then [(''AAA'', [0])] else []),
     position_at = (\<lambda>r. if r = 0 then ex_put_otm else ex_stock),
     orders = [], completed = False\<rparr>"

definition ex_world_rolled :: world where
  "ex_world_rolled = roll_one ex_ib 0 ex_B ex_world"

definition ex_world_written :: world where
  "ex_world_written = placeOrder (tcontract ex_B) (LimitOrder ''SELL'' 1 1) ex_world"

text \<open>
  A state whose dictionaries hold \<open>BBB\<close> alone, for which the selector finds nothing:
  the one at reference 3 with a put that can be rolled, the one at reference 4 with a call
  that can be rolled.
\<close>

definition ex_put_bbb :: position where
  "ex_put_bbb = \<lparr>contract = Option ''BBB'' ''07'' 85 ''P'' ''CBOE'' ''BBB'',
     position = - 1, marketValue = - 100\<rparr>"

definition ex_call_bbb :: position where
  "ex_call_bbb = \<lparr>contract = Option ''BBB'' ''07'' 95 ''C'' ''CBOE'' ''BBB'',
     position = - 1, marketValue = - 100\<rparr>"

definition ex_world_bbb :: world where
  "ex_world_bbb = \<lparr>dict_at = (\<lambda>d. if d = 3 then [(''BBB'', [7])]
                                   else if d = 4 then [(''BBB'', [8])] else []),
     position_at = (\<lambda>r. if r = 7 then ex_put_bbb else if r = 8 then ex_call_bbb else ex_stock),
     orders = [], completed = False\<rparr>"

section \<open>Properties of the roll evaluator\<close>

text \<open>
  C2. A put whose strike is at or above the current market price of its underlying is
  in the money, and \<open>put_can_be_rolled\<close> answers false for it whatever its days to
  expiration and its profit are.
\<close>

theorem itm_put_never_rolled:
  "strike (contract put) \<ge> marketPrice (reqTicker ib (Stock (symbol (contract put))))
   \<Longrightarrow> put_is_itm ib (contract put) \<and> put_can_be_rolled cfg h ib put = False"
  by (simp add: put_can_be_rolled_def put_is_itm_def)

theorem itm_put_never_rolled_witness:
  "strike (contract ex_put_itm) \<ge> marketPrice (reqTicker ex_ib (Stock (symbol (contract ex_put_itm))))
   \<and> option_dte ex_h (lastTradeDateOrContractMonth (contract ex_put_itm)) \<le> roll_when_dte ex_cfg
   \<and> put_can_be_rolled ex_cfg ex_h ex_ib ex_put_itm = False"
proof -
  have itm: "strike (contract ex_put_itm)
               \<ge> marketPrice (reqTicker ex_ib (Stock (symbol (contract ex_put_itm))))"
    by (simp add: ex_put_itm_def ex_ib_def ex_quote_def Option_def Stock_def)
  have dte: "option_dte ex_h (lastTradeDateOrContractMonth (contract ex_put_itm))
               \<le> roll_when_dte ex_cfg"
    by (simp add: ex_put_itm_def ex_h_def ex_dte_def ex_cfg_def Option_def)
  from itm_put_never_rolled [OF itm, of ex_cfg ex_h] itm dte show ?thesis
    by simp
qed

text \<open>
  C3. A call, and a put that is not in the money, can be rolled exactly when its days to
  expiration are at most \<open>roll_when.dte\<close> or its profit is at least \<open>roll_when.pnl\<close>.
  Each threshold is enough alone, also when it is met with equality.
\<close>

theorem roll_rule:
  "call_can_be_rolled cfg h p =
     (option_dte h (lastTradeDateOrContractMonth (contract p)) \<le> roll_when_dte cfg
      \<or> position_pnl h p \<ge> roll_when_pnl cfg)
   \<and> (\<not> put_is_itm ib (contract p) \<longrightarrow>
        put_can_be_rolled cfg h ib p =
          (option_dte h (lastTradeDateOrContractMonth (contract p)) \<le> roll_when_dte cfg
           \<or> position_pnl h p \<ge> roll_when_pnl cfg))
   \<and> (option_dte h (lastTradeDateOrContractMonth (contract p)) = roll_when_dte cfg
        \<longrightarrow> call_can_be_rolled cfg h p \<and> (\<not> put_is_itm ib (contract p) \<longrightarrow> put_can_be_rolled cfg h ib p))
   \<and> (position_pnl h p = roll_when_pnl cfg
        \<longrightarrow> call_can_be_rolled cfg h p \<and> (\<not> put_is_itm ib (contract p) \<longrightarrow> put_can_be_rolled cfg h ib p))"
  by (simp add: put_can_be_rolled_def call_can_be_rolled_def Let_def)

theorem roll_rule_witness:
  "\<not> put_is_itm ex_ib (contract ex_put_otm)
   \<and> option_dte ex_h (lastTradeDateOrContractMonth (contract ex_put_otm)) = roll_when_dte ex_cfg
   \<and> position_pnl ex_h ex_put_otm < roll_when_pnl ex_cfg
   \<and> put_can_be_rolled ex_cfg ex_h ex_ib ex_put_otm
   \<and> position_pnl ex_h ex_call = roll_when_pnl ex_cfg
   \<and> option_dte ex_h (lastTradeDateOrContractMonth (contract ex_call)) > roll_when_dte ex_cfg
   \<and> call_can_be_rolled ex_cfg ex_h ex_call"
  using roll_rule [of ex_cfg ex_h ex_put_otm ex_ib] roll_rule [of ex_cfg ex_h ex_call ex_ib]
  by (simp add: put_is_itm_def ex_put_otm_def ex_call_def ex_ib_def ex_quote_def ex_h_def
        ex_dte_def ex_cfg_def Option_def Stock_def)

section \<open>Properties of the selector\<close>

text \<open>
  C10. With \<open>option_chains.strikes = 0\<close> the trim keeps the whole list for a put and
  nothing for a call, so no call contract is built at all; with a positive count \<open>n\<close> it
  keeps the last \<open>n\<close> strikes for a put and the first \<open>n\<close> for a call. This holds for
  every list of strikes, sorted or not.
\<close>

theorem nearest_strikes_trim:
  "nearest_strikes (cfg\<lparr>option_chains_strikes := 0\<rparr>) ''P'' ks = Some ks
   \<and> nearest_strikes (cfg\<lparr>option_chains_strikes := 0\<rparr>) ''C'' ks = Some []
   \<and> candidate_contracts (cfg\<lparr>option_chains_strikes := 0\<rparr>) h s ''C'' ch tv = Inr []
   \<and> (0 < n \<longrightarrow>
        nearest_strikes (cfg\<lparr>option_chains_strikes := n\<rparr>) ''P'' ks
          = Some (drop (length ks - nat n) ks)
        \<and> nearest_strikes (cfg\<lparr>option_chains_strikes := n\<rparr>) ''C'' ks
          = Some (take (nat n) ks))"
  by (simp add: nearest_strikes_def candidate_contracts_def startswith_def
        slice_to_def slice_from_def Let_def)

theorem nearest_strikes_trim_witness:
  "(0::int) < 2
   \<and> nearest_strikes (ex_cfg\<lparr>option_chains_strikes := 2\<rparr>) ''P'' [80, 85, 90] = Some [85, 90]
   \<and> nearest_strikes (ex_cfg\<lparr>option_chains_strikes := 2\<rparr>) ''C'' [90, 95, 100] = Some [90, 95]"
  using nearest_strikes_trim [of ex_cfg "[80, 85, 90]" ex_h "''AAA''" "hd (ex_chains ''AAA'')" 90 2]
        nearest_strikes_trim [of ex_cfg "[90, 95, 100]" ex_h "''AAA''" "hd (ex_chains ''AAA'')" 90 2]
  by simp

text \<open>
  The wait for the open interest returns exactly when some state of the live ticker has
  both fields populated.
\<close>

lemma wait_for_open_interest_returns:
  "(wait_for_open_interest ts \<noteq> None)
     = (\<exists>t\<in>set ts. putOpenInterest t \<noteq> None \<and> callOpenInterest t \<noteq> None)"
  by (induction ts) (auto split: option.splits)

lemma filter_open_interest_subset:
  "filter_open_interest cfg ib rt ts = Some r \<Longrightarrow> set r \<subseteq> set ts"
  by (induction ts arbitrary: r) (auto split: option.splits if_splits)

lemma survivors_delta_valid:
  assumes "surviving_tickers cfg h ib s rt = Returns S" and "t \<in> set S"
  shows "delta_is_valid cfg t"
proof -
  from assms(1) obtain tickers where
    "filter_open_interest cfg ib rt (filter (delta_is_valid cfg) tickers) = Some S"
    by (auto simp: surviving_tickers_def split: sum.splits option.splits)
  from filter_open_interest_subset [OF this] assms(2) show ?thesis by auto
qed

lemma delta_is_valid_iff:
  "delta_is_valid cfg t =
     (\<exists>d. modelGreeks t = Some \<lparr>delta = Some d\<rparr> \<and> d \<noteq> 0 \<and> \<bar>d\<bar> \<le> target_delta cfg)"
proof (cases "modelGreeks t")
  case None
  then show ?thesis by (simp add: delta_is_valid_def)
next
  case (Some g)
  then show ?thesis
    by (cases g; cases "delta g") (auto simp: delta_is_valid_def)
qed

lemma delta_valid_key:
  "delta_is_valid cfg t \<Longrightarrow> abs_delta t = Inr (delta_key t) \<and> delta_key t \<le> target_delta cfg"
  by (auto simp: delta_is_valid_def abs_delta_def delta_key_def split: option.splits)

lemma rank_tickers_valid:
  assumes "\<forall>t\<in>set S. delta_is_valid cfg t"
  shows "rank_tickers h S = Inr (sort_key (dte_key h) (rev (sort_key delta_key S)))"
proof -
  have "\<not> isl (abs_delta t)" if "t \<in> set S" for t
  proof -
    from that assms have "abs_delta t = Inr (delta_key t)"
      using delta_valid_key by blast
    then show ?thesis by simp
  qed
  then have "List.find (\<lambda>t. isl (abs_delta t)) S = None"
    by (simp add: find_None_iff)
  then show ?thesis by (simp add: rank_tickers_def)
qed

lemma two_key_sort_head:
  fixes f :: "'a \<Rightarrow> 'k::linorder" and g :: "'a \<Rightarrow> 'l::linorder"
  assumes zs: "sort_key f (rev (sort_key g xs)) = z # rest"
  shows "z \<in> set xs"
    and "\<forall>u\<in>set xs. f z \<le> f u"
    and "\<forall>u\<in>set xs. f u = f z \<longrightarrow> g u \<le> g z"
proof -
  let ?ys = "rev (sort_key g xs)"
  have set_zs: "set (z # rest) = set xs"
    using zs [symmetric] by simp
  show "z \<in> set xs" using set_zs by auto
  have "sorted (map f (z # rest))"
    using zs [symmetric] by simp
  then have le_rest: "\<forall>u\<in>set rest. f z \<le> f u" by simp
  then show "\<forall>u\<in>set xs. f z \<le> f u" using set_zs by auto
  have "sorted (map g (sort_key g xs))" by simp
  then have "sorted_wrt (\<lambda>a b. g a \<le> g b) (sort_key g xs)"
    by (simp add: sorted_map)
  then have "sorted_wrt (\<lambda>a b. g b \<le> g a) ?ys"
    by (simp add: sorted_wrt_rev)
  then have desc: "sorted_wrt (\<lambda>a b. g b \<le> g a) (filter (\<lambda>y. f y = f z) ?ys)"
    by (rule sorted_wrt_filter)
  have "filter (\<lambda>y. f y = f z) (sort_key f ?ys) = filter (\<lambda>y. f y = f z) ?ys"
    by (rule sort_key_stable)
  then have "filter (\<lambda>y. f y = f z) ?ys = z # filter (\<lambda>y. f y = f z) rest"
    using zs by simp
  with desc have "\<forall>u\<in>set (filter (\<lambda>y. f y = f z) rest). g u \<le> g z"
    by simp
  then show "\<forall>u\<in>set xs. f u = f z \<longrightarrow> g u \<le> g z"
    using set_zs by auto
qed

lemma sorted_key_positions:
  fixes f :: "'a \<Rightarrow> 'k::linorder"
  assumes "i < length (sort_key f ys)" "j < length (sort_key f ys)"
    and "f (sort_key f ys ! i) < f (sort_key f ys ! j)"
  shows "i < j"
proof (rule ccontr)
  assume "\<not> i < j"
  then have "j \<le> i" by simp
  have "sorted (map f (sort_key f ys))" by simp
  from sorted_nth_mono [OF this \<open>j \<le> i\<close>] assms(1,2)
  have "f (sort_key f ys ! j) \<le> f (sort_key f ys ! i)" by simp
  with assms(3) show False by simp
qed

lemma find_returns_head:
  assumes surv: "surviving_tickers cfg h ib s rt = Returns survivors"
    and ne: "survivors \<noteq> []"
  shows "\<exists>t rest.
           sort_key (dte_key h) (rev (sort_key delta_key survivors)) = t # rest
         \<and> rank_tickers h survivors = Inr (t # rest)
         \<and> find_eligible_contracts cfg h ib s rt = Returns t
         \<and> t \<in> set survivors"
proof -
  let ?ranked = "sort_key (dte_key h) (rev (sort_key delta_key survivors))"
  have valid: "\<forall>t\<in>set survivors. delta_is_valid cfg t"
    using survivors_delta_valid [OF surv] by blast
  have rank: "rank_tickers h survivors = Inr ?ranked"
    using valid by (rule rank_tickers_valid)
  have "set ?ranked = set survivors" by simp
  with ne have "?ranked \<noteq> []" by (metis set_empty)
  then obtain t rest where tr: "?ranked = t # rest" by (cases ?ranked) auto
  have found: "find_eligible_contracts cfg h ib s rt = Returns t"
    by (simp add: find_eligible_contracts_def surv rank tr)
  have rank': "rank_tickers h survivors = Inr (t # rest)"
    using rank tr by simp
  have mem: "t \<in> set survivors"
    using two_key_sort_head(1) [OF tr] .
  show ?thesis
    by (intro exI [of _ t] exI [of _ rest] conjI) (fact tr rank' found mem)+
qed

text \<open>
  C1. When the filters leave a non-empty list of survivors, the selector returns a survivor
  whose days to expiration are least among all survivors and whose absolute delta is
  greatest among the survivors with that least number of days; in the ranked list a ticker
  with fewer days always stands before one with more days, whatever their deltas.
\<close>

theorem selection_ranking:
  assumes surv: "surviving_tickers cfg h ib s rt = Returns survivors"
    and ne: "survivors \<noteq> []"
  shows "\<exists>t rest.
           rank_tickers h survivors = Inr (t # rest)
         \<and> find_eligible_contracts cfg h ib s rt = Returns t
         \<and> t \<in> set survivors
         \<and> set (t # rest) = set survivors
         \<and> length (t # rest) = length survivors
         \<and> (\<forall>u\<in>set survivors. abs_delta u = Inr (delta_key u))
         \<and> (\<forall>u\<in>set survivors. dte_key h t \<le> dte_key h u)
         \<and> (\<forall>u\<in>set survivors. dte_key h u = dte_key h t \<longrightarrow> delta_key u \<le> delta_key t)
         \<and> (\<forall>i<length (t # rest). \<forall>j<length (t # rest).
               dte_key h ((t # rest) ! i) < dte_key h ((t # rest) ! j) \<longrightarrow> i < j)"
proof -
  from find_returns_head [OF surv ne] obtain t rest where
    tr: "sort_key (dte_key h) (rev (sort_key delta_key survivors)) = t # rest"
    and rank: "rank_tickers h survivors = Inr (t # rest)"
    and found: "find_eligible_contracts cfg h ib s rt = Returns t"
    and mem: "t \<in> set survivors"
    by blast
  have pos: "\<forall>i<length (t # rest). \<forall>j<length (t # rest).
               dte_key h ((t # rest) ! i) < dte_key h ((t # rest) ! j) \<longrightarrow> i < j"
    using sorted_key_positions [of _ "dte_key h" "rev (sort_key delta_key survivors)"]
    unfolding tr by blast
  have keys: "\<forall>u\<in>set survivors. abs_delta u = Inr (delta_key u)"
    using survivors_delta_valid [OF surv] delta_valid_key by blast
  have same: "set (t # rest) = set survivors" "length (t # rest) = length survivors"
    using tr [symmetric] by simp_all
  note hd = two_key_sort_head(2,3) [OF tr]
  show ?thesis
    by (intro exI [of _ t] exI [of _ rest] conjI)
       (fact rank found mem hd same keys pos)+
qed


lemmas ex_defs =
  ex_ib_def ex_cfg_def ex_h_def ex_chains_def ex_dte_def ex_quote_def ex_live_def
  ex_A_def ex_B_def

lemmas selector_defs =
  surviving_tickers_def candidate_tickers_def candidate_contracts_def Stock_def Option_def
  slice_to_def slice_from_def qualifyContracts_def List.map_filter_simps
  valid_strike_def startswith_def nearest_strikes_def delta_is_valid_def
  open_interest_is_valid_def

lemma ex_survivors_AAA:
  "surviving_tickers ex_cfg ex_h ex_ib ''AAA'' ''P'' = Returns [ex_B, ex_A]"
  by (simp add: selector_defs ex_defs)

lemma ex_survivors_BBB:
  "surviving_tickers ex_cfg ex_h ex_ib ''BBB'' ''P'' = Returns []"
  by (simp add: selector_defs ex_defs)

lemma ex_candidates_BBB:
  "candidate_tickers ex_cfg ex_h ex_ib ''BBB'' ''P'' = Inr []"
  by (simp add: selector_defs ex_defs)

lemma ex_keys:
  "dte_key ex_h ex_B = 20" "dte_key ex_h ex_A = 30"
  "delta_key ex_B = 1 / 10" "delta_key ex_A = 1 / 4"
  by (simp_all add: dte_key_def delta_key_def abs_delta_def ex_defs Option_def)

theorem selection_ranking_witness:
  "surviving_tickers ex_cfg ex_h ex_ib ''AAA'' ''P'' = Returns [ex_B, ex_A]
   \<and> [ex_B, ex_A] \<noteq> []
   \<and> dte_key ex_h ex_B = 20 \<and> delta_key ex_B = 1 / 10
   \<and> dte_key ex_h ex_A = 30 \<and> delta_key ex_A = 1 / 4
   \<and> find_eligible_contracts ex_cfg ex_h ex_ib ''AAA'' ''P'' = Returns ex_B"
proof -
  have ne: "[ex_B, ex_A] \<noteq> []" by simp
  from selection_ranking [OF ex_survivors_AAA ne] obtain t where
    found: "find_eligible_contracts ex_cfg ex_h ex_ib ''AAA'' ''P'' = Returns t"
    and mem: "t \<in> set [ex_B, ex_A]"
    and least: "\<forall>u\<in>set [ex_B, ex_A]. dte_key ex_h t \<le> dte_key ex_h u"
    by blast
  from least have "dte_key ex_h t \<le> 20" by (simp add: ex_keys)
  with mem have "t = ex_B" by (auto simp: ex_keys)
  with found ex_survivors_AAA ex_keys show ?thesis by simp
qed

text \<open>
  C9. When the filters leave no survivor the selector raises the error that names the
  symbol, and when they leave some it returns the head of the ranked survivors, which is
  one of them. The survivors are empty in particular whenever no candidate ticker was
  built, as happens when the chain has no strikes or no expirations.
\<close>

theorem empty_selection_raises:
  "(surviving_tickers cfg h ib s rt = Returns [] \<longrightarrow>
      find_eligible_contracts cfg h ib s rt = Raises (no_valid_contracts s))
   \<and> (surviving_tickers cfg h ib s rt = Returns (x # xs) \<longrightarrow>
        (\<exists>t rest. rank_tickers h (x # xs) = Inr (t # rest)
           \<and> find_eligible_contracts cfg h ib s rt = Returns t
           \<and> t \<in> set (x # xs)))
   \<and> (candidate_tickers cfg h ib s rt = Inr [] \<longrightarrow>
        find_eligible_contracts cfg h ib s rt = Raises (no_valid_contracts s))
   \<and> ((startswith rt ''P'' \<or> startswith rt ''C'') \<and> (strikes ch = [] \<or> expirations ch = []) \<longrightarrow>
        candidate_contracts cfg h s rt ch tv = Inr [])"
proof (intro conjI impI)
  assume "surviving_tickers cfg h ib s rt = Returns []"
  then show "find_eligible_contracts cfg h ib s rt = Raises (no_valid_contracts s)"
    by (simp add: find_eligible_contracts_def rank_tickers_def)
next
  assume surv: "surviving_tickers cfg h ib s rt = Returns (x # xs)"
  have "x # xs \<noteq> []" by simp
  from find_returns_head [OF surv this]
  show "\<exists>t rest. rank_tickers h (x # xs) = Inr (t # rest)
           \<and> find_eligible_contracts cfg h ib s rt = Returns t
           \<and> t \<in> set (x # xs)"
    by blast
next
  assume "candidate_tickers cfg h ib s rt = Inr []"
  then have "surviving_tickers cfg h ib s rt = Returns []"
    by (simp add: surviving_tickers_def)
  then show "find_eligible_contracts cfg h ib s rt = Raises (no_valid_contracts s)"
    by (simp add: find_eligible_contracts_def rank_tickers_def)
next
  assume "(startswith rt ''P'' \<or> startswith rt ''C'') \<and> (strikes ch = [] \<or> expirations ch = [])"
  then show "candidate_contracts cfg h s rt ch tv = Inr []"
    by (auto simp: candidate_contracts_def nearest_strikes_def slice_to_def slice_from_def Let_def)
qed

theorem empty_selection_raises_witness:
  "surviving_tickers ex_cfg ex_h ex_ib ''BBB'' ''P'' = Returns []
   \<and> find_eligible_contracts ex_cfg ex_h ex_ib ''BBB'' ''P''
       = Raises (RuntimeError ''No valid contracts found for BBB. Aborting.'')
   \<and> surviving_tickers ex_cfg ex_h ex_ib ''AAA'' ''P'' = Returns [ex_B, ex_A]
   \<and> find_eligible_contracts ex_cfg ex_h ex_ib ''AAA'' ''P'' \<noteq> Raises (no_valid_contracts ''AAA'')
   \<and> candidate_tickers ex_cfg ex_h ex_ib ''BBB'' ''P'' = Inr []
   \<and> startswith ''P'' ''P'' \<and> strikes (hd (ex_chains ''AAA'')) = []
   \<and> candidate_contracts ex_cfg ex_h ''AAA'' ''P'' (hd (ex_chains ''AAA'')) 90 = Inr []"
  using empty_selection_raises [of ex_cfg ex_h ex_ib "''BBB''" "''P''" ex_B "[ex_A]" "hd (ex_chains ''AAA'')" 90]
    empty_selection_raises [of ex_cfg ex_h ex_ib "''AAA''" "''P''" ex_B "[ex_A]" "hd (ex_chains ''AAA'')" 90]
    ex_survivors_BBB ex_survivors_AAA ex_candidates_BBB
  by (auto simp: no_valid_contracts_def startswith_def ex_chains_def)

text \<open>
  C4. The delta filter at a ticker whose model delta is present and equal to zero: the
  absolute value is within \<open>target.delta\<close>, and the filter drops the ticker.
\<close>

theorem zero_delta_rejected:
  "modelGreeks ex_zero_delta = Some \<lparr>delta = Some 0\<rparr>
   \<and> \<bar>0 :: rat\<bar> \<le> target_delta ex_cfg
   \<and> \<not> delta_is_valid ex_cfg ex_zero_delta"
  by (simp add: ex_zero_delta_def ex_cfg_def delta_is_valid_def)

text \<open>
  The filter keeps exactly the tickers with a present, non-zero delta of absolute value at
  most \<open>target.delta\<close>, so the selector never returns one beyond the target.
\<close>

lemma selected_delta_within_target:
  assumes "find_eligible_contracts cfg h ib s rt = Returns t"
  shows "\<exists>d. modelGreeks t = Some \<lparr>delta = Some d\<rparr> \<and> d \<noteq> 0 \<and> \<bar>d\<bar> \<le> target_delta cfg"
proof -
  from assms obtain S where surv: "surviving_tickers cfg h ib s rt = Returns S"
    by (auto simp: find_eligible_contracts_def split: outcome.splits)
  show ?thesis
  proof (cases S)
    case Nil
    with surv assms show ?thesis
      by (simp add: find_eligible_contracts_def rank_tickers_def)
  next
    case (Cons x xs)
    then have "S \<noteq> []" by simp
    from find_returns_head [OF surv this] assms have "t \<in> set S" by auto
    from survivors_delta_valid [OF surv this] show ?thesis
      by (simp add: delta_is_valid_iff)
  qed
qed

section \<open>Properties of the allocation calculator\<close>

lemma floor_rat_numeral:
  "\<lfloor>numeral a / numeral b :: rat\<rfloor> = numeral a div numeral b"
  by (metis floor_divide_of_int_eq of_int_numeral)

lemma floor_rat_minus_numeral:
  "\<lfloor>- (numeral a / numeral b) :: rat\<rfloor> = - numeral a div numeral b"
  by (metis divide_minus_left floor_divide_of_int_eq of_int_neg_numeral of_int_numeral)

lemma ceiling_rat_minus_numeral:
  "\<lceil>- (numeral a / numeral b) :: rat\<rceil> = - (numeral a div numeral b)"
  by (simp add: ceiling_def floor_rat_numeral)

lemmas floor_evals = floor_rat_numeral floor_rat_minus_numeral ceiling_rat_minus_numeral

lemma ceiling_floor_nonint:
  fixes x :: rat
  shows "of_int \<lfloor>x\<rfloor> \<noteq> x \<Longrightarrow> \<lceil>x\<rceil> = \<lfloor>x\<rfloor> + 1"
  by (simp add: ceiling_altdef)

text \<open>
  C5, as amended. Every share count and contract count is floored toward minus infinity,
  as \<^verbatim>\<open>math.floor\<close> and \<^verbatim>\<open>//\<close> do: the share count is the floor of
  \<open>target / price\<close> and the put count is the floor of the additional shares over 100.
  Where the quotient is not negative this is the floor toward zero; where it is negative
  and not an integer it is one below the floor toward zero.
\<close>

theorem counts_floor:
  "(price \<noteq> 0 \<longrightarrow> target_share_count target price = Inr \<lfloor>target / price\<rfloor>)
   \<and> (price \<noteq> 0 \<and> 0 \<le> target / price \<longrightarrow>
        target_share_count target price = Inr (floor_toward_zero (target / price)))
   \<and> (price \<noteq> 0 \<and> target / price < 0 \<and> of_int \<lfloor>target / price\<rfloor> \<noteq> target / price \<longrightarrow>
        target_share_count target price = Inr (floor_toward_zero (target / price) - 1))
   \<and> target_put_count q = \<lfloor>q / 100\<rfloor>
   \<and> (0 \<le> q \<longrightarrow> target_put_count q = floor_toward_zero (q / 100))
   \<and> (q < 0 \<and> of_int \<lfloor>q / 100\<rfloor> \<noteq> q / 100 \<longrightarrow>
        target_put_count q = floor_toward_zero (q / 100) - 1)"
  by (simp add: target_share_count_def target_put_count_def floor_toward_zero_def
        ceiling_floor_nonint)

theorem counts_floor_witness:
  "(50 :: rat) \<noteq> 0 \<and> (0 :: rat) \<le> 50000 / 50
   \<and> target_share_count 50000 50 = Inr 1000
   \<and> (0 :: rat) \<le> 800 \<and> target_put_count 800 = 8 \<and> floor_toward_zero (800 / 100) = 8
   \<and> (- 187 :: rat) < 0 \<and> target_put_count (- 187) = floor_toward_zero (- 187 / 100) - 1
   \<and> target_share_count (- 15) 10 = Inr (floor_toward_zero (- 15 / 10) - 1)"
  using counts_floor [of 50 50000 800] counts_floor [of 10 "- 15" "- 187"]
  by (simp add: floor_toward_zero_def floor_evals)

text \<open>
  With 250 shares held and a weight of one thousandth, 187 shares too many are held; the
  code turns that into \<open>-2\<close> contracts where flooring toward zero gives \<open>-1\<close>.
\<close>

theorem floor_toward_zero_counterexample:
  "target_additional_quantity ex_ib (total_value ex_cfg ex_account ex_held)
       (stock_symbols ex_held) ''AAA'' (1 / 1000) = Inr (- 187)
   \<and> target_put_count (- 187) = - 2
   \<and> floor_toward_zero (- 187 / 100) = - 1
   \<and> target_share_count (- 15) 10 = Inr (- 2)
   \<and> floor_toward_zero (- 15 / 10) = - 1"
  by (simp add: target_additional_quantity_def target_share_count_def total_value_def
        remaining_buying_power_def stock_symbols_def stock_positions_def target_put_count_def
        floor_toward_zero_def ex_ib_def ex_quote_def ex_cfg_def ex_account_def ex_held_def Stock_def floor_evals)

text \<open>
  C6, as amended. When the total value is not negative and the market price of the symbol
  is positive, a greater weight for the symbol, with everything else fixed, never gives
  fewer additional shares for it.
\<close>

theorem weight_monotone:
  assumes "0 \<le> total_value cfg a pp"
    and "0 < marketPrice (reqTicker ib (Stock s))"
    and "w1 \<le> w2"
  shows "\<exists>q1 q2.
           target_additional_quantity ib (total_value cfg a pp) (stock_symbols pp) s w1 = Inr q1
         \<and> target_additional_quantity ib (total_value cfg a pp) (stock_symbols pp) s w2 = Inr q2
         \<and> q1 \<le> q2"
proof -
  let ?tv = "total_value cfg a pp" and ?p = "marketPrice (reqTicker ib (Stock s))"
  have "w1 * ?tv \<le> w2 * ?tv"
    using assms(1,3) by (rule mult_right_mono [rotated])
  then have "w1 * ?tv / ?p \<le> w2 * ?tv / ?p"
    using assms(2) by (simp add: divide_right_mono)
  then have "\<lfloor>w1 * ?tv / ?p\<rfloor> \<le> \<lfloor>w2 * ?tv / ?p\<rfloor>"
    by (rule floor_mono)
  then have "(of_int \<lfloor>w1 * ?tv / ?p\<rfloor> :: rat) \<le> of_int \<lfloor>w2 * ?tv / ?p\<rfloor>"
    by simp
  with assms(2) show ?thesis
    by (simp add: target_additional_quantity_def target_share_count_def Let_def
          split: option.splits)
qed

theorem weight_monotone_witness:
  "0 \<le> total_value ex_cfg ex_account ex_held
   \<and> 0 < marketPrice (reqTicker ex_ib (Stock ''AAA''))
   \<and> (1 / 1000 :: rat) \<le> 1 / 100
   \<and> target_additional_quantity ex_ib (total_value ex_cfg ex_account ex_held)
        (stock_symbols ex_held) ''AAA'' (1 / 1000) = Inr (- 187)
   \<and> target_additional_quantity ex_ib (total_value ex_cfg ex_account ex_held)
        (stock_symbols ex_held) ''AAA'' (1 / 100) = Inr 386"
proof -
  have tv: "0 \<le> total_value ex_cfg ex_account ex_held"
    by (simp add: total_value_def remaining_buying_power_def stock_positions_def
          ex_cfg_def ex_account_def ex_held_def Stock_def floor_evals)
  have pr: "0 < marketPrice (reqTicker ex_ib (Stock ''AAA''))"
    by (simp add: ex_ib_def ex_quote_def Stock_def)
  have w: "(1 / 1000 :: rat) \<le> 1 / 100" by simp
  from weight_monotone [OF tv pr w] tv pr w show ?thesis
    by (simp add: target_additional_quantity_def target_share_count_def total_value_def
        remaining_buying_power_def stock_symbols_def stock_positions_def
        ex_ib_def ex_quote_def ex_cfg_def ex_account_def ex_held_def Stock_def floor_evals)
qed

text \<open>
  With excess liquidity below the cushion the total value is negative, and raising the
  weight from one fifth to one lowers the additional shares from \<open>-1\<close> to \<open>-2\<close>.
\<close>

theorem weight_monotone_counterexample:
  "total_value ex_cfg ex_account_low [] = - 100
   \<and> (1 / 5 :: rat) \<le> 1
   \<and> target_additional_quantity ex_ib (total_value ex_cfg ex_account_low [])
        (stock_symbols []) ''AAA'' (1 / 5) = Inr (- 1)
   \<and> target_additional_quantity ex_ib (total_value ex_cfg ex_account_low [])
        (stock_symbols []) ''AAA'' 1 = Inr (- 2)"
  by (simp add: target_additional_quantity_def target_share_count_def total_value_def
        remaining_buying_power_def stock_symbols_def stock_positions_def
        ex_ib_def ex_quote_def ex_cfg_def ex_account_low_def Stock_def floor_evals)

section \<open>Properties of the management cycle\<close>

lemma and_then_assoc:
  "and_then (and_then r f) g = and_then r (\<lambda>w. and_then (f w) g)"
  by (cases r; cases "fst r") (auto simp: and_then_def split: outcome.splits)

lemma and_then_Returns [simp]: "and_then (Returns u, w) f = f w"
  by (simp add: and_then_def)

lemma and_then_Raises [simp]: "and_then (Raises e, w) f = (Raises e, w)"
  by (simp add: and_then_def)

lemma and_then_Hangs [simp]: "and_then (Hangs, w) f = (Hangs, w)"
  by (simp add: and_then_def)

lemma write_puts_loop_append:
  "write_puts_loop cfg h ib pp (xs @ ys) w
     = and_then (write_puts_loop cfg h ib pp xs w) (write_puts_loop cfg h ib pp ys)"
proof (induction xs arbitrary: w)
  case Nil
  then show ?case by simp
next
  case (Cons x xs)
  obtain s q where x: "x = (s, q)" by (cases x)
  have rest: "write_puts_loop cfg h ib pp (xs @ ys)
                = (\<lambda>w. and_then (write_puts_loop cfg h ib pp xs w) (write_puts_loop cfg h ib pp ys))"
    using Cons.IH by (intro ext)
  show ?case
    by (simp add: x Let_def Cons.IH and_then_assoc rest)
qed

lemma roll_positions_append:
  "roll_positions cfg h ib rt (xs @ ys) w
     = and_then (roll_positions cfg h ib rt xs w) (roll_positions cfg h ib rt ys)"
proof (induction xs arbitrary: w)
  case Nil
  then show ?case by simp
next
  case (Cons r rs)
  show ?case
    by (cases "find_eligible_contracts cfg h ib (symbol (contract (position_at w r))) rt")
       (simp_all add: Cons.IH)
qed

text \<open>
  C7, as amended. A failure of the selector for one symbol is not caught anywhere: it ends
  the loop that writes puts at that symbol, and likewise the loop that rolls positions, so
  that the orders placed for earlier symbols stay and no later symbol is processed; and
  when \<open>check_puts\<close>, \<open>check_calls\<close> or \<open>check_if_can_write_puts\<close> raises,
  \<open>manage\<close> raises the same error in the state reached, before the completion result
  is set.
\<close>

theorem selection_failure_aborts:
  "(find_eligible_contracts cfg h ib s ''P'' = Raises e
      \<and> count_option_positions h s pp ''P'' < target_put_count q
      \<and> write_puts_loop cfg h ib pp before w = (Returns (), w1)
    \<longrightarrow> write_puts_loop cfg h ib pp (before @ (s, q) # later) w = (Raises e, w1))
   \<and> (find_eligible_contracts cfg h ib (symbol (contract (position_at w2 r))) rt = Raises e2
      \<and> roll_positions cfg h ib rt rolled w = (Returns (), w2)
    \<longrightarrow> roll_positions cfg h ib rt (rolled @ r # rs) w = (Raises e2, w2))
   \<and> (filter_positions cfg d w = (Returns d1, w3)
      \<and> check_puts cfg h ib d1 w3 = (Returns (), w4)
      \<and> check_calls cfg h ib d1 w4 = (Returns (), w5)
      \<and> check_for_uncovered_positions cfg h ib d1 w5 = (Returns (), w6)
      \<and> check_if_can_write_puts cfg h ib a (portfolio ib) w6 = (Raises e3, w7)
    \<longrightarrow> manage cfg h ib a d w = (Raises e3, w7))
   \<and> (filter_positions cfg dp wp = (Returns dp1, wp1)
      \<and> check_puts cfg h ib dp1 wp1 = (Raises e4, wp2)
    \<longrightarrow> manage cfg h ib a dp wp = (Raises e4, wp2))
   \<and> (filter_positions cfg dc wc = (Returns dc1, wc1)
      \<and> check_puts cfg h ib dc1 wc1 = (Returns (), wc2)
      \<and> check_calls cfg h ib dc1 wc2 = (Raises e5, wc3)
    \<longrightarrow> manage cfg h ib a dc wc = (Raises e5, wc3))"
  by (simp add: write_puts_loop_append roll_positions_append write_puts_def manage_def Let_def)

lemma ex_rank:
  "rank_tickers ex_h [ex_B, ex_A] = Inr [ex_B, ex_A]"
  by (simp add: rank_tickers_def abs_delta_def delta_key_def dte_key_def ex_A_def ex_B_def
        ex_quote_def ex_h_def ex_dte_def Option_def)

lemma ex_find_AAA:
  "find_eligible_contracts ex_cfg ex_h ex_ib ''AAA'' ''P'' = Returns ex_B"
  by (simp add: find_eligible_contracts_def ex_survivors_AAA ex_rank)

lemma ex_find_only_AAA:
  "find_eligible_contracts (ex_cfg\<lparr>symbols := ws\<rparr>) ex_h ex_ib ''AAA'' ''P'' = Returns ex_B"
proof -
  have "surviving_tickers (ex_cfg\<lparr>symbols := ws\<rparr>) ex_h ex_ib ''AAA'' ''P'' = Returns [ex_B, ex_A]"
    by (simp add: selector_defs ex_defs)
  then show ?thesis
    by (simp add: find_eligible_contracts_def ex_rank)
qed

lemma ex_find_BBB:
  "find_eligible_contracts ex_cfg ex_h ex_ib ''BBB'' ''P'' = Raises (no_valid_contracts ''BBB'')"
  by (simp add: find_eligible_contracts_def ex_survivors_BBB rank_tickers_def)

lemma ex_find_ZZZ:
  "find_eligible_contracts ex_cfg ex_h ex_ib ''ZZZ'' ''P'' = Raises (no_valid_contracts ''ZZZ'')"
  by (simp add: find_eligible_contracts_def rank_tickers_def selector_defs ex_defs)

lemma ex_targets:
  "target_additional_quantities ex_ib (total_value ex_cfg ex_account []) (stock_symbols [])
     [(''BBB'', 1 / 10), (''AAA'', 1 / 10)] = Inr [(''BBB'', 111), (''AAA'', 111)]"
  by (simp add: target_additional_quantity_def target_share_count_def total_value_def
        remaining_buying_power_def stock_symbols_def stock_positions_def
        ex_ib_def ex_quote_def ex_cfg_def ex_account_def Stock_def floor_evals)

lemma ex_put_count:
  "count_option_positions ex_h s pp rt = 0" "target_put_count 111 = 1"
  by (simp_all add: ex_h_def target_put_count_def floor_evals)

lemma ex_round2: "round2 1 = 1"
  by (simp add: round2_def)

lemma ex_write_AAA:
  "write_puts ex_cfg ex_h ex_ib ''AAA'' 1 ex_world = (Returns (), ex_world_written)"
  by (simp add: write_puts_def ex_find_AAA ex_world_written_def ex_B_def ex_quote_def
        Option_def ex_round2)

lemma ex_check_write:
  "check_if_can_write_puts ex_cfg ex_h ex_ib ex_account [] w
     = (Raises (no_valid_contracts ''BBB''), w)"
proof -
  have "symbols ex_cfg = [(''BBB'', 1 / 10), (''AAA'', 1 / 10)]"
    by (simp add: ex_cfg_def)
  then show ?thesis
    by (simp add: check_if_can_write_puts_def ex_targets ex_put_count write_puts_def ex_find_BBB
          del: target_additional_quantities.simps)
qed

lemma ex_roll:
  "roll_positions ex_cfg ex_h ex_ib ''P'' [0] ex_world = (Returns (), ex_world_rolled)"
  by (simp add: ex_world_rolled_def ex_world_def ex_put_otm_def Option_def ex_find_AAA)

lemma ex_filter:
  "filter_positions ex_cfg 2 ex_world = (Returns 2, ex_world)"
  by (simp add: filter_positions_def ex_world_def ex_cfg_def)

lemma ex_rolled_fields:
  "dict_at ex_world_rolled = dict_at ex_world"
  "position_at ex_world_rolled 5 = ex_stock"
  "position_at ex_world_rolled 0 = routed_SMART ex_put_otm"
  "completed ex_world_rolled = False"
  by (simp_all add: ex_world_rolled_def roll_one_def set_exchange_SMART_def placeOrder_def
        ex_world_def Let_def)

lemma ex_check_puts:
  "check_puts ex_cfg ex_h ex_ib 2 ex_world = (Returns (), ex_world_rolled)"
proof -
  have "get_puts ex_world 2 = [0]"
    by (simp add: get_puts_def get_options_def ex_world_def ex_put_otm_def Option_def
          startswith_def)
  moreover have "put_can_be_rolled ex_cfg ex_h ex_ib (position_at ex_world 0)"
    by (simp add: put_can_be_rolled_def put_is_itm_def ex_world_def ex_put_otm_def Option_def
          Stock_def ex_ib_def ex_quote_def ex_h_def ex_dte_def ex_cfg_def)
  ultimately show ?thesis
    by (simp add: check_puts_def roll_puts_def ex_roll del: roll_positions.simps)
qed

lemma ex_check_calls:
  "check_calls ex_cfg ex_h ex_ib 2 ex_world_rolled = (Returns (), ex_world_rolled)"
proof -
  have "get_calls ex_world_rolled 2 = []"
    by (simp add: get_calls_def get_options_def ex_rolled_fields routed_SMART_def ex_world_def ex_put_otm_def
          Option_def startswith_def)
  then show ?thesis
    by (simp add: check_calls_def roll_calls_def)
qed

lemma ex_uncovered:
  "check_for_uncovered_positions ex_cfg ex_h ex_ib 2 ex_world_rolled = (Returns (), ex_world_rolled)"
  by (simp add: check_for_uncovered_positions_def snapshot_of_def ex_rolled_fields routed_SMART_def ex_world_def
        ex_put_otm_def Option_def ex_put_count)

lemma ex_find_BBB_call:
  "find_eligible_contracts ex_cfg ex_h ex_ib ''BBB'' ''C'' = Raises (no_valid_contracts ''BBB'')"
  by (simp add: find_eligible_contracts_def rank_tickers_def selector_defs ex_defs)

lemma ex_bbb_fields:
  "dict_at ex_world_bbb 3 = [(''BBB'', [7])]"
  "dict_at ex_world_bbb 4 = [(''BBB'', [8])]"
  "position_at ex_world_bbb 7 = ex_put_bbb"
  "position_at ex_world_bbb 8 = ex_call_bbb"
  by (simp_all add: ex_world_bbb_def)

lemma ex_bbb_filter:
  "filter_positions ex_cfg 3 ex_world_bbb = (Returns 3, ex_world_bbb)"
  "filter_positions ex_cfg 4 ex_world_bbb = (Returns 4, ex_world_bbb)"
  by (simp_all add: filter_positions_def ex_bbb_fields ex_cfg_def)

lemma ex_bbb_check_puts:
  "check_puts ex_cfg ex_h ex_ib 3 ex_world_bbb = (Raises (no_valid_contracts ''BBB''), ex_world_bbb)"
  "check_puts ex_cfg ex_h ex_ib 4 ex_world_bbb = (Returns (), ex_world_bbb)"
proof -
  have puts: "get_puts ex_world_bbb 3 = [7]" "get_puts ex_world_bbb 4 = []"
    by (simp_all add: get_puts_def get_options_def ex_bbb_fields ex_put_bbb_def ex_call_bbb_def
          Option_def startswith_def)
  have rollable: "put_can_be_rolled ex_cfg ex_h ex_ib (position_at ex_world_bbb 7)"
    by (simp add: put_can_be_rolled_def put_is_itm_def ex_bbb_fields ex_put_bbb_def Option_def
          Stock_def ex_ib_def ex_quote_def ex_h_def ex_dte_def ex_cfg_def)
  have sym: "symbol (contract (position_at ex_world_bbb 7)) = ''BBB''"
    by (simp add: ex_bbb_fields ex_put_bbb_def Option_def)
  show "check_puts ex_cfg ex_h ex_ib 3 ex_world_bbb
          = (Raises (no_valid_contracts ''BBB''), ex_world_bbb)"
    using puts rollable sym by (simp add: check_puts_def roll_puts_def ex_find_BBB)
  show "check_puts ex_cfg ex_h ex_ib 4 ex_world_bbb = (Returns (), ex_world_bbb)"
    using puts by (simp add: check_puts_def roll_puts_def)
qed

lemma ex_bbb_check_calls:
  "check_calls ex_cfg ex_h ex_ib 4 ex_world_bbb = (Raises (no_valid_contracts ''BBB''), ex_world_bbb)"
proof -
  have calls: "get_calls ex_world_bbb 4 = [8]"
    by (simp add: get_calls_def get_options_def ex_bbb_fields ex_call_bbb_def
          Option_def startswith_def)
  have rollable: "call_can_be_rolled ex_cfg ex_h (position_at ex_world_bbb 8)"
    by (simp add: call_can_be_rolled_def ex_bbb_fields ex_call_bbb_def Option_def
          ex_h_def ex_dte_def ex_cfg_def)
  have sym: "symbol (contract (position_at ex_world_bbb 8)) = ''BBB''"
    by (simp add: ex_bbb_fields ex_call_bbb_def Option_def)
  show ?thesis
    using calls rollable sym by (simp add: check_calls_def roll_calls_def ex_find_BBB_call)
qed

theorem selection_failure_aborts_witness:
  "find_eligible_contracts ex_cfg ex_h ex_ib ''BBB'' ''P'' = Raises (no_valid_contracts ''BBB'')
   \<and> count_option_positions ex_h ''BBB'' [] ''P'' < target_put_count 111
   \<and> write_puts_loop ex_cfg ex_h ex_ib [] [(''AAA'', 111)] ex_world = (Returns (), ex_world_written)
   \<and> write_puts_loop ex_cfg ex_h ex_ib [] ([(''AAA'', 111)] @ (''BBB'', 111) # [(''AAA'', 111)]) ex_world
       = (Raises (no_valid_contracts ''BBB''), ex_world_written)
   \<and> find_eligible_contracts ex_cfg ex_h ex_ib (symbol (contract (position_at ex_world_rolled 5))) ''P''
       = Raises (no_valid_contracts ''ZZZ'')
   \<and> roll_positions ex_cfg ex_h ex_ib ''P'' [0] ex_world = (Returns (), ex_world_rolled)
   \<and> roll_positions ex_cfg ex_h ex_ib ''P'' ([0] @ 5 # [0]) ex_world
       = (Raises (no_valid_contracts ''ZZZ''), ex_world_rolled)
   \<and> manage ex_cfg ex_h ex_ib ex_account 2 ex_world
       = (Raises (no_valid_contracts ''BBB''), ex_world_rolled)
   \<and> filter_positions ex_cfg 3 ex_world_bbb = (Returns 3, ex_world_bbb)
   \<and> check_puts ex_cfg ex_h ex_ib 3 ex_world_bbb
       = (Raises (no_valid_contracts ''BBB''), ex_world_bbb)
   \<and> manage ex_cfg ex_h ex_ib ex_account 3 ex_world_bbb
       = (Raises (no_valid_contracts ''BBB''), ex_world_bbb)
   \<and> filter_positions ex_cfg 4 ex_world_bbb = (Returns 4, ex_world_bbb)
   \<and> check_puts ex_cfg ex_h ex_ib 4 ex_world_bbb = (Returns (), ex_world_bbb)
   \<and> check_calls ex_cfg ex_h ex_ib 4 ex_world_bbb
       = (Raises (no_valid_contracts ''BBB''), ex_world_bbb)
   \<and> manage ex_cfg ex_h ex_ib ex_account 4 ex_world_bbb
       = (Raises (no_valid_contracts ''BBB''), ex_world_bbb)"
proof -
  have a1: "count_option_positions ex_h ''BBB'' [] ''P'' < target_put_count 111"
    by (simp add: ex_put_count)
  have a2: "write_puts_loop ex_cfg ex_h ex_ib [] [(''AAA'', 111)] ex_world
              = (Returns (), ex_world_written)"
    by (simp add: ex_put_count ex_write_AAA)
  have b1: "find_eligible_contracts ex_cfg ex_h ex_ib
              (symbol (contract (position_at ex_world_rolled 5))) ''P''
              = Raises (no_valid_contracts ''ZZZ'')"
    by (simp add: ex_rolled_fields ex_stock_def Stock_def ex_find_ZZZ)
  have c5: "check_if_can_write_puts ex_cfg ex_h ex_ib ex_account (portfolio ex_ib) ex_world_rolled
              = (Raises (no_valid_contracts ''BBB''), ex_world_rolled)"
    using ex_check_write [of ex_world_rolled] by (simp add: ex_ib_def)
  from selection_failure_aborts
         [where cfg = ex_cfg and h = ex_h and ib = ex_ib and s = "''BBB''"
            and e = "no_valid_contracts ''BBB''" and pp = "[]" and q = 111
            and before = "[(''AAA'', 111)]" and w = ex_world and ?w1.0 = ex_world_written
            and later = "[(''AAA'', 111)]" and ?w2.0 = ex_world_rolled and r = 5
            and rt = "''P''" and ?e2.0 = "no_valid_contracts ''ZZZ''" and rolled = "[0]"
            and rs = "[0]" and d = 2 and ?d1.0 = 2 and ?w3.0 = ex_world
            and ?w4.0 = ex_world_rolled and ?w5.0 = ex_world_rolled
            and ?w6.0 = ex_world_rolled and a = ex_account
            and ?e3.0 = "no_valid_contracts ''BBB''" and ?w7.0 = ex_world_rolled
            and dp = 3 and wp = ex_world_bbb and ?dp1.0 = 3 and ?wp1.0 = ex_world_bbb
            and ?e4.0 = "no_valid_contracts ''BBB''" and ?wp2.0 = ex_world_bbb
            and dc = 4 and wc = ex_world_bbb and ?dc1.0 = 4 and ?wc1.0 = ex_world_bbb
            and ?wc2.0 = ex_world_bbb and ?e5.0 = "no_valid_contracts ''BBB''"
            and ?wc3.0 = ex_world_bbb]
    ex_find_BBB a1 a2 b1 ex_roll ex_filter ex_check_puts ex_check_calls ex_uncovered c5
    ex_bbb_filter ex_bbb_check_puts ex_bbb_check_calls
  show ?thesis by simp
qed

text \<open>
  With \<open>BBB\<close> ahead of \<open>AAA\<close> in the configuration, the failure for \<open>BBB\<close> leaves
  \<open>AAA\<close> without its order, which it gets when it is configured alone; and the cycle
  ends with the error, its completion result unset.
\<close>

theorem failure_isolation_counterexample:
  "check_if_can_write_puts ex_cfg ex_h ex_ib ex_account [] ex_world
     = (Raises (no_valid_contracts ''BBB''), ex_world)
   \<and> orders ex_world = []
   \<and> check_if_can_write_puts (ex_cfg\<lparr>symbols := [(''AAA'', 1 / 10)]\<rparr>) ex_h ex_ib ex_account [] ex_world
     = (Returns (), ex_world_written)
   \<and> length (orders ex_world_written) = 1
   \<and> manage ex_cfg ex_h ex_ib ex_account 2 ex_world
     = (Raises (no_valid_contracts ''BBB''), ex_world_rolled)
   \<and> \<not> completed ex_world_rolled"
proof -
  have cycle: "manage ex_cfg ex_h ex_ib ex_account 2 ex_world
                 = (Raises (no_valid_contracts ''BBB''), ex_world_rolled)"
  proof -
    have "portfolio ex_ib = []"
      by (simp add: ex_ib_def)
    then show ?thesis
      by (simp add: manage_def ex_filter ex_check_puts ex_check_calls ex_uncovered
            ex_check_write)
  qed
  have none: "orders ex_world = []"
    by (simp add: ex_world_def)
  have "target_additional_quantities ex_ib (total_value ex_cfg ex_account []) (stock_symbols [])
          [(''AAA'', 1 / 10)] = Inr [(''AAA'', 111)]"
    using ex_targets by (simp split: sum.splits)
  moreover have "total_value (ex_cfg\<lparr>symbols := [(''AAA'', 1 / 10)]\<rparr>) ex_account []
                   = total_value ex_cfg ex_account []"
    by (simp add: total_value_def remaining_buying_power_def)
  moreover have "write_puts (ex_cfg\<lparr>symbols := [(''AAA'', 1 / 10)]\<rparr>) ex_h ex_ib ''AAA'' 1 ex_world
                   = (Returns (), ex_world_written)"
    by (simp add: write_puts_def ex_find_only_AAA ex_world_written_def ex_B_def ex_quote_def
          Option_def ex_round2)
  ultimately have alone:
    "check_if_can_write_puts (ex_cfg\<lparr>symbols := [(''AAA'', 1 / 10)]\<rparr>) ex_h ex_ib ex_account [] ex_world
       = (Returns (), ex_world_written)"
    by (simp add: check_if_can_write_puts_def ex_put_count
          del: target_additional_quantities.simps)
  have one: "length (orders ex_world_written) = 1"
    by (simp add: ex_world_written_def placeOrder_def none)
  from ex_check_write [of ex_world] none alone one cycle show ?thesis
    by (simp add: ex_rolled_fields)
qed

section \<open>The snapshot is changed in place\<close>

lemma filter_out_of_scope:
  "k \<notin> S \<Longrightarrow>
     filter (\<lambda>e. fst e \<in> S) (filter (\<lambda>(k', _). k' \<noteq> k) xs) = filter (\<lambda>e. fst e \<in> S) xs"
  by (induction xs) auto

lemma del_key_dict:
  "k \<notin> set (map fst (symbols cfg)) \<Longrightarrow>
     filter (\<lambda>e. fst e \<in> set (map fst (symbols cfg))) (dict_at (del_key k d w) d)
       = filter (\<lambda>e. fst e \<in> set (map fst (symbols cfg))) (dict_at w d)"
  using filter_out_of_scope [of k "set (map fst (symbols cfg))" "dict_at w d"]
  by (simp add: del_key_def)

lemma filter_positions_loop_frame:
  "filter_positions_loop cfg d used ks w = (r, w') \<Longrightarrow>
     position_at w' = position_at w \<and> orders w' = orders w \<and> completed w' = completed w
     \<and> (\<forall>d'. d' \<noteq> d \<longrightarrow> dict_at w' d' = dict_at w d')
     \<and> filter (\<lambda>e. fst e \<in> set (map fst (symbols cfg))) (dict_at w' d)
         = filter (\<lambda>e. fst e \<in> set (map fst (symbols cfg))) (dict_at w d)
     \<and> set (dict_at w' d) \<subseteq> set (dict_at w d)"
proof (induction ks arbitrary: w)
  case Nil
  then show ?case by (auto split: if_splits)
next
  case (Cons k ks)
  show ?case
  proof (cases "length (dict_at w d) \<noteq> used")
    case True
    with Cons.prems show ?thesis by auto
  next
    case same: False
    show ?thesis
    proof (cases "k \<in> set (map fst (symbols cfg))")
      case True
      with same Cons.prems have "filter_positions_loop cfg d used ks w = (r, w')"
        by simp
      from Cons.IH [OF this] show ?thesis .
    next
      case False
      with same Cons.prems have "filter_positions_loop cfg d used ks (del_key k d w) = (r, w')"
        by simp
      from Cons.IH [OF this] have
        ih: "position_at w' = position_at (del_key k d w)"
            "orders w' = orders (del_key k d w)"
            "completed w' = completed (del_key k d w)"
            "\<forall>d'. d' \<noteq> d \<longrightarrow> dict_at w' d' = dict_at (del_key k d w) d'"
            "filter (\<lambda>e. fst e \<in> set (map fst (symbols cfg))) (dict_at w' d)
               = filter (\<lambda>e. fst e \<in> set (map fst (symbols cfg))) (dict_at (del_key k d w) d)"
            "set (dict_at w' d) \<subseteq> set (dict_at (del_key k d w) d)"
        by simp_all
      have kept: "filter (\<lambda>e. fst e \<in> set (map fst (symbols cfg))) (dict_at (del_key k d w) d)
                    = filter (\<lambda>e. fst e \<in> set (map fst (symbols cfg))) (dict_at w d)"
        by (rule del_key_dict [OF False])
      have sub: "set (dict_at (del_key k d w) d) \<subseteq> set (dict_at w d)"
        by (auto simp: del_key_def)
      from ih kept sub show ?thesis
        by (auto simp: del_key_def)
    qed
  qed
qed

lemma routed_SMART_fields:
  "position (routed_SMART p) = position p"
  "marketValue (routed_SMART p) = marketValue p"
  "contract (routed_SMART p) = (contract p)\<lparr>exchange := ''SMART''\<rparr>"
  "routed_SMART (routed_SMART p) = routed_SMART p"
  by (simp_all add: routed_SMART_def)

lemma roll_one_frame:
  "dict_at (roll_one ib r t w) = dict_at w"
  "position_at (roll_one ib r t w) = (position_at w)(r := routed_SMART (position_at w r))"
  by (simp_all add: roll_one_def set_exchange_SMART_def placeOrder_def Let_def)

lemma roll_positions_frame:
  "roll_positions cfg h ib rt rs w = (res, w') \<Longrightarrow>
     dict_at w' = dict_at w
     \<and> (\<forall>a. position_at w' a = position_at w a
           \<or> position_at w' a = routed_SMART (position_at w a))
     \<and> (res = Returns () \<longrightarrow>
           (\<forall>a\<in>set rs. position_at w' a = routed_SMART (position_at w a)))"
proof (induction rs arbitrary: w)
  case Nil
  then show ?case by simp
next
  case (Cons r rs)
  show ?case
  proof (cases "find_eligible_contracts cfg h ib (symbol (contract (position_at w r))) rt")
    case (Returns t)
    let ?w1 = "roll_one ib r t w"
    from Returns Cons.prems have "roll_positions cfg h ib rt rs ?w1 = (res, w')"
      by simp
    from Cons.IH [OF this] have
      d: "dict_at w' = dict_at ?w1"
      and p: "\<forall>a. position_at w' a = position_at ?w1 a
                \<or> position_at w' a = routed_SMART (position_at ?w1 a)"
      and q: "res = Returns () \<longrightarrow>
                (\<forall>a\<in>set rs. position_at w' a = routed_SMART (position_at ?w1 a))"
      by simp_all
    have at_r: "position_at w' r = routed_SMART (position_at w r)"
      using p [rule_format, of r] by (simp add: roll_one_frame routed_SMART_fields)
    have other: "position_at w' a = position_at w a
                  \<or> position_at w' a = routed_SMART (position_at w a)" if "a \<noteq> r" for a
      using p [rule_format, of a] that by (simp add: roll_one_frame)
    have all: "\<forall>a. position_at w' a = position_at w a
                \<or> position_at w' a = routed_SMART (position_at w a)"
      using at_r other by metis
    have rolled: "position_at w' a = routed_SMART (position_at w a)"
      if "res = Returns ()" "a \<in> set (r # rs)" for a
    proof (cases "a = r")
      case True
      with at_r show ?thesis by simp
    next
      case False
      with that have "a \<in> set rs" by simp
      with q that(1) have "position_at w' a = routed_SMART (position_at ?w1 a)" by blast
      with False show ?thesis by (simp add: roll_one_frame)
    qed
    from d all rolled show ?thesis
      by (simp add: roll_one_frame)
  next
    case (Raises e)
    with Cons.prems show ?thesis by auto
  next
    case Hangs
    with Cons.prems show ?thesis by auto
  qed
qed

lemma filter_positions_loop_changed:
  "length (dict_at w d) \<noteq> used \<Longrightarrow>
     filter_positions_loop cfg d used ks w = (Raises changed_size, w)"
  by (cases ks) simp_all

lemma del_key_shrinks:
  assumes "k \<in> set (map fst (dict_at w d))"
  shows "length (dict_at (del_key k d w) d) < length (dict_at w d)"
    and "k \<notin> set (map fst (dict_at (del_key k d w) d))"
proof -
  from assms obtain e where e: "e \<in> set (dict_at w d)" "fst e = k" by auto
  from e(2) have "\<not> (case e of (k', _) \<Rightarrow> k' \<noteq> k)"
    by (simp add: case_prod_beta)
  with e(1) have "length (filter (\<lambda>(k', _). k' \<noteq> k) (dict_at w d)) < length (dict_at w d)"
    by (rule length_filter_less)
  then show "length (dict_at (del_key k d w) d) < length (dict_at w d)"
    by (simp add: del_key_def)
  show "k \<notin> set (map fst (dict_at (del_key k d w) d))"
    by (auto simp: del_key_def)
qed

lemma filter_positions_loop_exact:
  assumes "length (dict_at w d) = used"
    and "set ks \<subseteq> set (map fst (dict_at w d))"
  shows "filter_positions_loop cfg d used ks w
           = (case List.find (\<lambda>k. k \<notin> set (map fst (symbols cfg))) ks of
                None \<Rightarrow> (Returns (), w)
              | Some k \<Rightarrow> (Raises changed_size, del_key k d w))"
  using assms
proof (induction ks)
  case Nil
  then show ?case by simp
next
  case (Cons k ks)
  show ?case
  proof (cases "k \<in> set (map fst (symbols cfg))")
    case True
    with Cons show ?thesis by simp
  next
    case False
    from Cons.prems have "k \<in> set (map fst (dict_at w d))" by simp
    from del_key_shrinks(1) [OF this] Cons.prems(1)
    have "length (dict_at (del_key k d w) d) \<noteq> used" by simp
    from filter_positions_loop_changed [OF this]
    have "filter_positions_loop cfg d used ks (del_key k d w)
            = (Raises changed_size, del_key k d w)" .
    with False Cons.prems(1) show ?thesis by simp
  qed
qed

lemma filter_positions_exact:
  "filter_positions cfg d w
     = (case List.find (\<lambda>k. k \<notin> set (map fst (symbols cfg))) (map fst (dict_at w d)) of
          None \<Rightarrow> (Returns d, w)
        | Some k \<Rightarrow> (Raises changed_size, del_key k d w))"
proof -
  have "filter_positions_loop cfg d (length (dict_at w d)) (map fst (dict_at w d)) w
          = (case List.find (\<lambda>k. k \<notin> set (map fst (symbols cfg))) (map fst (dict_at w d)) of
               None \<Rightarrow> (Returns (), w)
             | Some k \<Rightarrow> (Raises changed_size, del_key k d w))"
    by (rule filter_positions_loop_exact) simp_all
  then show ?thesis
    by (simp add: filter_positions_def split: option.splits)
qed

text \<open>
  C8, as amended. The core works on the fetched snapshot in place and never builds a copy.
  When every key of the dictionary is configured, \<open>filter_positions\<close> returns the
  dictionary it was given, unchanged; whenever it returns, what it returns is that same
  dictionary. When some key is not configured, the first such key is deleted from the
  dictionary it was given, so that the original is no longer what it was. In every case the
  dictionary afterwards holds some of its former entries, among them every entry whose
  symbol is configured, in the same order, and no other dictionary and no position is
  touched. \<open>roll_positions\<close> leaves the dictionaries alone and sets the exchange of the
  contract of each position it rolls to \<open>SMART\<close>; every other field of every position
  keeps its value.
\<close>

theorem snapshot_changed_in_place:
  "(set (map fst (dict_at w d)) \<subseteq> set (map fst (symbols cfg)) \<longrightarrow>
       filter_positions cfg d w = (Returns d, w))
   \<and> (filter_positions cfg d w = (res, w') \<longrightarrow>
       (\<forall>d'. res = Returns d' \<longrightarrow> d' = d)
     \<and> position_at w' = position_at w
     \<and> (\<forall>d'. d' \<noteq> d \<longrightarrow> dict_at w' d' = dict_at w d')
     \<and> filter (\<lambda>e. fst e \<in> set (map fst (symbols cfg))) (dict_at w' d)
         = filter (\<lambda>e. fst e \<in> set (map fst (symbols cfg))) (dict_at w d)
     \<and> set (dict_at w' d) \<subseteq> set (dict_at w d)
     \<and> (\<forall>k. List.find (\<lambda>k. k \<notin> set (map fst (symbols cfg))) (map fst (dict_at w d)) = Some k
            \<longrightarrow> k \<in> set (map fst (dict_at w d))
              \<and> k \<notin> set (map fst (dict_at w' d))
              \<and> dict_at w' d \<noteq> dict_at w d))
   \<and> (roll_positions cfg h ib rt rs w = (res2, w2) \<longrightarrow>
       dict_at w2 = dict_at w
     \<and> (\<forall>a. position_at w2 a = position_at w a
           \<or> position_at w2 a = routed_SMART (position_at w a))
     \<and> (res2 = Returns () \<longrightarrow>
           (\<forall>a\<in>set rs. position_at w2 a = routed_SMART (position_at w a))))
   \<and> position (routed_SMART p) = position p
   \<and> marketValue (routed_SMART p) = marketValue p
   \<and> contract (routed_SMART p) = (contract p)\<lparr>exchange := ''SMART''\<rparr>"
proof (intro conjI impI allI)
  assume "set (map fst (dict_at w d)) \<subseteq> set (map fst (symbols cfg))"
  then have "List.find (\<lambda>k. k \<notin> set (map fst (symbols cfg))) (map fst (dict_at w d)) = None"
    by (auto simp: find_None_iff)
  then show "filter_positions cfg d w = (Returns d, w)"
    by (simp add: filter_positions_exact)
next
  assume fp: "filter_positions cfg d w = (res, w')"
  obtain r0 where loop:
    "filter_positions_loop cfg d (length (dict_at w d)) (map fst (dict_at w d)) w = (r0, w')"
    and res: "res = (case r0 of Returns _ \<Rightarrow> Returns d | Raises e \<Rightarrow> Raises e | Hangs \<Rightarrow> Hangs)"
    using fp by (auto simp: filter_positions_def split: prod.splits outcome.splits)
  note frame = filter_positions_loop_frame [OF loop]
  show "position_at w' = position_at w" using frame by simp
  show "filter (\<lambda>e. fst e \<in> set (map fst (symbols cfg))) (dict_at w' d)
         = filter (\<lambda>e. fst e \<in> set (map fst (symbols cfg))) (dict_at w d)"
    using frame by simp
  show "set (dict_at w' d) \<subseteq> set (dict_at w d)" using frame by simp
  show "d' = d" if "res = Returns d'" for d'
    using res that by (auto split: outcome.splits)
  show "dict_at w' d' = dict_at w d'" if "d' \<noteq> d" for d'
    using frame that by simp
  fix k
  assume found: "List.find (\<lambda>k. k \<notin> set (map fst (symbols cfg))) (map fst (dict_at w d)) = Some k"
  then show mem: "k \<in> set (map fst (dict_at w d))"
    by (auto simp: find_Some_iff)
  from found fp have w': "w' = del_key k d w"
    by (simp add: filter_positions_exact)
  show gone: "k \<notin> set (map fst (dict_at w' d))"
    unfolding w' using del_key_shrinks(2) [OF mem] .
  from mem gone show "dict_at w' d \<noteq> dict_at w d"
    by metis
next
  assume rp: "roll_positions cfg h ib rt rs w = (res2, w2)"
  note frame = roll_positions_frame [OF rp]
  show "dict_at w2 = dict_at w" using frame by simp
  show "position_at w2 a = position_at w a
           \<or> position_at w2 a = routed_SMART (position_at w a)" for a
    using frame by simp
  assume "res2 = Returns ()"
  then show "\<forall>a\<in>set rs. position_at w2 a = routed_SMART (position_at w a)"
    using frame by simp
qed (simp_all add: routed_SMART_fields)

lemma ex_dicts:
  "dict_at ex_world 0 = [(''AAA'', [0]), (''ZZZ'', [5])]"
  "dict_at ex_world 2 = [(''AAA'', [0])]"
  "map fst (symbols ex_cfg) = [''BBB'', ''AAA'']"
  by (simp_all add: ex_world_def ex_cfg_def)

lemma ex_filter_raises:
  "filter_positions ex_cfg 0 ex_world = (Raises changed_size, del_key ''ZZZ'' 0 ex_world)"
  by (simp add: filter_positions_exact ex_dicts)

lemma ex_deleted:
  "dict_at (del_key ''ZZZ'' 0 ex_world) 0 = [(''AAA'', [0])]"
  "dict_at (del_key ''ZZZ'' 0 ex_world) 2 = [(''AAA'', [0])]"
  "position_at (del_key ''ZZZ'' 0 ex_world) = position_at ex_world"
  by (simp_all add: del_key_def ex_dicts)

theorem snapshot_changed_in_place_witness:
  "map fst (dict_at ex_world 2) = [''AAA''] \<and> map fst (symbols ex_cfg) = [''BBB'', ''AAA'']
   \<and> filter_positions ex_cfg 2 ex_world = (Returns 2, ex_world)
   \<and> map fst (dict_at ex_world 0) = [''AAA'', ''ZZZ'']
   \<and> filter_positions ex_cfg 0 ex_world = (Raises changed_size, del_key ''ZZZ'' 0 ex_world)
   \<and> map fst (dict_at (del_key ''ZZZ'' 0 ex_world) 0) = [''AAA'']
   \<and> position_at (del_key ''ZZZ'' 0 ex_world) = position_at ex_world
   \<and> dict_at (del_key ''ZZZ'' 0 ex_world) 2 = dict_at ex_world 2
   \<and> roll_positions ex_cfg ex_h ex_ib ''P'' [0] ex_world = (Returns (), ex_world_rolled)
   \<and> dict_at ex_world_rolled = dict_at ex_world
   \<and> position_at ex_world_rolled 0 = routed_SMART (position_at ex_world 0)
   \<and> exchange (contract (position_at ex_world_rolled 0)) = ''SMART''"
proof -
  have sub: "set (map fst (dict_at ex_world 2)) \<subseteq> set (map fst (symbols ex_cfg))"
    by (simp add: ex_dicts)
  have found: "List.find (\<lambda>k. k \<notin> set (map fst (symbols ex_cfg))) (map fst (dict_at ex_world 0))
                 = Some ''ZZZ''"
    by (simp add: ex_dicts)
  note inst2 = snapshot_changed_in_place
          [where cfg = ex_cfg and d = 2 and w = ex_world
             and res = "Returns 2" and w' = ex_world
             and h = ex_h and ib = ex_ib and rt = "''P''" and rs = "[0]"
             and ?res2.0 = "Returns ()" and ?w2.0 = ex_world_rolled
             and p = "position_at ex_world 0"]
  note inst0 = snapshot_changed_in_place
          [where cfg = ex_cfg and d = 0 and w = ex_world
             and res = "Raises changed_size" and w' = "del_key ''ZZZ'' 0 ex_world"
             and h = ex_h and ib = ex_ib and rt = "''P''" and rs = "[0]"
             and ?res2.0 = "Returns ()" and ?w2.0 = ex_world_rolled
             and p = "position_at ex_world 0"]
  from inst2 sub have returns: "filter_positions ex_cfg 2 ex_world = (Returns 2, ex_world)"
    by blast
  from inst0 ex_filter_raises found
  have gone: "''ZZZ'' \<notin> set (map fst (dict_at (del_key ''ZZZ'' 0 ex_world) 0))"
    and same: "position_at (del_key ''ZZZ'' 0 ex_world) = position_at ex_world"
    and other: "dict_at (del_key ''ZZZ'' 0 ex_world) 2 = dict_at ex_world 2"
    by simp_all
  from inst0 ex_roll
  have rolled: "dict_at ex_world_rolled = dict_at ex_world"
    "position_at ex_world_rolled 0 = routed_SMART (position_at ex_world 0)"
    by simp_all
  from returns ex_filter_raises same other rolled ex_roll show ?thesis
    by (simp add: ex_dicts ex_deleted routed_SMART_def)
qed

text \<open>
  The dictionary at reference 0 loses its key \<open>ZZZ\<close>, the call ending with the error of
  a dictionary that changed size while it was iterated; and the rolled put, fetched with
  exchange \<open>CBOE\<close>, has exchange \<open>SMART\<close> afterwards.
\<close>

theorem snapshot_mutation_counterexample:
  "dict_at ex_world 0 = [(''AAA'', [0]), (''ZZZ'', [5])]
   \<and> filter_positions ex_cfg 0 ex_world = (Raises changed_size, del_key ''ZZZ'' 0 ex_world)
   \<and> dict_at (del_key ''ZZZ'' 0 ex_world) 0 = [(''AAA'', [0])]
   \<and> exchange (contract (position_at ex_world 0)) = ''CBOE''
   \<and> roll_positions ex_cfg ex_h ex_ib ''P'' [0] ex_world = (Returns (), ex_world_rolled)
   \<and> exchange (contract (position_at ex_world_rolled 0)) = ''SMART''"
proof -
  have before: "exchange (contract (position_at ex_world 0)) = ''CBOE''"
    by (simp add: ex_world_def ex_put_otm_def Option_def)
  have after: "exchange (contract (position_at ex_world_rolled 0)) = ''SMART''"
    by (simp add: ex_rolled_fields routed_SMART_def)
  from before after ex_filter_raises ex_roll show ?thesis
    by (simp add: ex_dicts ex_deleted)
qed


end
